theory Spec2Isabelle
  imports Complex_Main "HOL-Library.AList" "HOL-Library.Log_Nat" "HOL-Library.Multiset"
begin

section \<open>JavaScript values\<close>

text \<open>
  The refresh pipeline of \<^verbatim>\<open>controller.js\<close> works on what \<^verbatim>\<open>response.json()\<close>
  hands it: scalars, arrays and objects. The program itself meets further values:
  \<^verbatim>\<open>undefined\<close> (a missing property), \<^verbatim>\<open>NaN\<close> and the infinities (arithmetic),
  and the built-in functions an object inherits (\<^verbatim>\<open>rates["constructor"]\<close>). An object
  is the association list of its own properties, in insertion order.

  A number is an IEEE double, held as the real number it denotes. The sign of a zero is
  not represented: a zero divisor counts as \<open>+0\<close>, which is what reaches a division
  here (a rate of \<open>0\<close> or \<open>-0\<close> is falsy and is never divided by). An array holds
  its elements only: a named property attached to an array is not represented.
\<close>

datatype jsval =
    Undefined
  | Null
  | Bool bool
  | Num real
  | NaN
  | PosInf
  | NegInf
  | Str string
  | Arr "jsval list"
  | Obj "(string \<times> jsval) list"
  | Fun string

datatype error = TypeError | SyntaxError | FetchError | DbError | RenderError

fun truthy :: "jsval \<Rightarrow> bool" where
  "truthy Undefined = False"
| "truthy Null = False"
| "truthy (Bool b) = b"
| "truthy (Num x) = (x \<noteq> 0)"
| "truthy NaN = False"
| "truthy PosInf = True"
| "truthy NegInf = True"
| "truthy (Str s) = (s \<noteq> [])"
| "truthy (Arr xs) = True"
| "truthy (Obj kvs) = True"
| "truthy (Fun f) = True"

fun typeof :: "jsval \<Rightarrow> string" where
  "typeof Undefined = ''undefined''"
| "typeof Null = ''object''"
| "typeof (Bool b) = ''boolean''"
| "typeof (Num x) = ''number''"
| "typeof NaN = ''number''"
| "typeof PosInf = ''number''"
| "typeof NegInf = ''number''"
| "typeof (Str s) = ''string''"
| "typeof (Arr xs) = ''object''"
| "typeof (Obj kvs) = ''object''"
| "typeof (Fun f) = ''function''"

fun isArray :: "jsval \<Rightarrow> bool" where
  "isArray (Arr xs) = True"
| "isArray v = False"

definition nullish :: "jsval \<Rightarrow> bool" where
  "nullish v = (v = Undefined \<or> v = Null)"

text \<open>
  \<^verbatim>\<open>key in obj\<close> raises a TypeError when the right operand is not an object. The
  program evaluates it under the guard \<^verbatim>\<open>typeof obj === "object"\<close> only, with the
  keys of a record; the answer is given for the own keys of an object, and for an array
  it is the one for a name that is not an index.
\<close>

fun js_in :: "string \<Rightarrow> jsval \<Rightarrow> error + bool" where
  "js_in key (Obj kvs) = Inr (key \<in> set (map fst kvs))"
| "js_in key (Arr xs) = Inr False"
| "js_in key v = Inl TypeError"

text \<open>
  \<^verbatim>\<open>obj[key] = v\<close>: an existing property is overwritten in place, a new one is
  appended. The assignment raises on \<^verbatim>\<open>undefined\<close> and \<^verbatim>\<open>null\<close>, and is ignored
  on the other primitives (the module is not in strict mode). On an array it would
  attach a named property, which the model of an array does not hold.
\<close>

fun js_set :: "jsval \<Rightarrow> string \<Rightarrow> jsval \<Rightarrow> error + jsval" where
  "js_set (Obj kvs) key v = Inr (Obj (AList.update key v kvs))"
| "js_set (Arr xs) key v = Inr (Arr xs)"
| "js_set Undefined key v = Inl TypeError"
| "js_set Null key v = Inl TypeError"
| "js_set obj key v = Inr obj"

subsection \<open>What the engine supplies\<close>

text \<open>
  Three tables of the JavaScript engine are not in the repository and are parameters of
  the model: the number a string denotes when it is more than a row of digits
  (\<^verbatim>\<open>"1e3"\<close>, \<^verbatim>\<open>" 12 "\<close>, \<^verbatim>\<open>"0x1F"\<close>), the numeral of a number that is not an
  integer below $10^{21}$, and the members that a value other than a plain object finds
  on its prototype (the methods of arrays, strings, numbers and functions).
\<close>

record engine =
  parse_number :: "string \<Rightarrow> jsval"
  show_number :: "real \<Rightarrow> string"
  exotic_member :: "jsval \<Rightarrow> string \<Rightarrow> jsval"

subsection \<open>Double arithmetic\<close>

text \<open>
  Rounding to the nearest double, ties to the even significand. \<open>binade x\<close> is the
  exponent \<open>e\<close> with \<open>2^e \<le> x < 2^(e+1)\<close>, for positive \<open>x\<close>; a double has 53
  significant bits, and below \<open>2^(-1022)\<close> the spacing stays \<open>2^(-1074)\<close>.
\<close>

definition round_even :: "real \<Rightarrow> int" where
  "round_even m =
     (let f = \<lfloor>m\<rfloor>; d = m - of_int f
      in if d < 1 / 2 then f else if 1 / 2 < d then f + 1 else if even f then f else f + 1)"

definition binade :: "real \<Rightarrow> int" where
  "binade x = (if 1 \<le> x then bitlen \<lfloor>x\<rfloor> - 1 else - bitlen (\<lceil>1 / x\<rceil> - 1))"

definition ulp_exponent :: "real \<Rightarrow> int" where
  "ulp_exponent x = max (binade \<bar>x\<bar>) (- 1022) - 52"

definition round_double :: "real \<Rightarrow> real" where
  "round_double x =
     (if x = 0 then 0
      else of_int (round_even (x / 2 powi ulp_exponent x)) * 2 powi ulp_exponent x)"

text \<open>The double for an exact result: a rounded value of \<open>2^1024\<close> or more overflows.\<close>

definition overflow_threshold :: real where
  "overflow_threshold = 2 ^ 1024"

definition double_of :: "real \<Rightarrow> jsval" where
  "double_of x =
     (let y = round_double x
      in if overflow_threshold \<le> y then PosInf
         else if y \<le> - overflow_threshold then NegInf
         else Num y)"

text \<open>The product and the quotient of two numbers; every other case is \<^verbatim>\<open>NaN\<close>.\<close>

fun mul_numbers :: "jsval \<Rightarrow> jsval \<Rightarrow> jsval" where
  "mul_numbers (Num x) (Num y) = double_of (x * y)"
| "mul_numbers (Num x) PosInf = (if x = 0 then NaN else if 0 < x then PosInf else NegInf)"
| "mul_numbers (Num x) NegInf = (if x = 0 then NaN else if 0 < x then NegInf else PosInf)"
| "mul_numbers PosInf (Num y) = (if y = 0 then NaN else if 0 < y then PosInf else NegInf)"
| "mul_numbers NegInf (Num y) = (if y = 0 then NaN else if 0 < y then NegInf else PosInf)"
| "mul_numbers PosInf PosInf = PosInf"
| "mul_numbers PosInf NegInf = NegInf"
| "mul_numbers NegInf PosInf = NegInf"
| "mul_numbers NegInf NegInf = PosInf"
| "mul_numbers a b = NaN"

fun div_numbers :: "jsval \<Rightarrow> jsval \<Rightarrow> jsval" where
  "div_numbers (Num x) (Num y) =
     (if y = 0 then (if x = 0 then NaN else if 0 < x then PosInf else NegInf)
      else double_of (x / y))"
| "div_numbers (Num x) PosInf = Num 0"
| "div_numbers (Num x) NegInf = Num 0"
| "div_numbers PosInf (Num y) = (if 0 \<le> y then PosInf else NegInf)"
| "div_numbers NegInf (Num y) = (if 0 \<le> y then NegInf else PosInf)"
| "div_numbers a b = NaN"

text \<open>The order of the numbers; \<^verbatim>\<open>NaN\<close> is comparable to nothing.\<close>

fun num_le :: "jsval \<Rightarrow> jsval \<Rightarrow> bool" where
  "num_le (Num x) (Num y) = (x \<le> y)"
| "num_le (Num x) PosInf = True"
| "num_le NegInf (Num y) = True"
| "num_le NegInf NegInf = True"
| "num_le NegInf PosInf = True"
| "num_le PosInf PosInf = True"
| "num_le a b = False"

subsection \<open>Conversions\<close>

text \<open>The decimal numeral of a natural number, and the number of a row of digits.\<close>

function show_nat :: "nat \<Rightarrow> string" where
  "show_nat n =
     (if n < 10 then [''0123456789'' ! n]
      else show_nat (n div 10) @ [''0123456789'' ! (n mod 10)])"
  by pat_completeness auto
termination
  by (relation "measure id") auto

declare show_nat.simps [simp del]

definition is_digit :: "char \<Rightarrow> bool" where
  "is_digit c = (c \<in> set ''0123456789'')"

definition digit_value :: "char \<Rightarrow> nat" where
  "digit_value c = length (takeWhile (\<lambda>d. d \<noteq> c) ''0123456789'')"

definition digits_value :: "string \<Rightarrow> nat" where
  "digits_value s = foldl (\<lambda>n c. 10 * n + digit_value c) 0 s"

text \<open>
  ToString, as a property key and as an element of \<^verbatim>\<open>Array.prototype.join\<close> need
  it. An array is the join of its elements, where \<^verbatim>\<open>null\<close> and \<^verbatim>\<open>undefined\<close>
  count as the empty string. A plain object is \<^verbatim>\<open>"[object Object]"\<close> by the inherited
  \<^verbatim>\<open>toString\<close>; an own property \<^verbatim>\<open>toString\<close> of a parsed object is never a
  function, it hides the inherited one, \<^verbatim>\<open>valueOf\<close> returns no primitive, and the
  conversion raises a TypeError.
\<close>

definition number_to_string :: "engine \<Rightarrow> real \<Rightarrow> string" where
  "number_to_string eng x =
     (if x = of_int \<lfloor>x\<rfloor> \<and> \<bar>x\<bar> < 10 ^ 21
      then (if x < 0 then ''-'' else '''') @ show_nat (nat \<lfloor>\<bar>x\<bar>\<rfloor>)
      else show_number eng x)"

fun to_string :: "engine \<Rightarrow> jsval \<Rightarrow> error + string"
  and join_items :: "engine \<Rightarrow> jsval list \<Rightarrow> error + string"
  and item_string :: "engine \<Rightarrow> jsval \<Rightarrow> error + string"
where
  "to_string eng Undefined = Inr ''undefined''"
| "to_string eng Null = Inr ''null''"
| "to_string eng (Bool b) = Inr (if b then ''true'' else ''false'')"
| "to_string eng (Num x) = Inr (number_to_string eng x)"
| "to_string eng NaN = Inr ''NaN''"
| "to_string eng PosInf = Inr ''Infinity''"
| "to_string eng NegInf = Inr ''-Infinity''"
| "to_string eng (Str s) = Inr s"
| "to_string eng (Arr xs) = join_items eng xs"
| "to_string eng (Obj kvs) =
     (if ''toString'' \<in> set (map fst kvs) then Inl TypeError else Inr ''[object Object]'')"
| "to_string eng (Fun f) = Inr (''function '' @ f @ ''() { [native code] }'')"
| "join_items eng [] = Inr ''''"
| "join_items eng [x] = item_string eng x"
| "join_items eng (x # y # ys) =
     (case item_string eng x of
        Inl e \<Rightarrow> Inl e
      | Inr s \<Rightarrow>
          (case join_items eng (y # ys) of
             Inl e \<Rightarrow> Inl e
           | Inr t \<Rightarrow> Inr (s @ '','' @ t)))"
| "item_string eng x = (if x = Undefined \<or> x = Null then Inr '''' else to_string eng x)"

text \<open>
  ToNumber. The empty string is 0 and a row of digits is its number, rounded; every
  other string is the engine's to read. An array, an object and a function are
  converted through their string.
\<close>

definition string_to_number :: "engine \<Rightarrow> string \<Rightarrow> jsval" where
  "string_to_number eng s =
     (if s = [] then Num 0
      else if list_all is_digit s then double_of (real (digits_value s))
      else parse_number eng s)"

fun to_number :: "engine \<Rightarrow> jsval \<Rightarrow> error + jsval" where
  "to_number eng Undefined = Inr NaN"
| "to_number eng Null = Inr (Num 0)"
| "to_number eng (Bool b) = Inr (Num (if b then 1 else 0))"
| "to_number eng (Num x) = Inr (Num x)"
| "to_number eng NaN = Inr NaN"
| "to_number eng PosInf = Inr PosInf"
| "to_number eng NegInf = Inr NegInf"
| "to_number eng (Str s) = Inr (string_to_number eng s)"
| "to_number eng v =
     (case to_string eng v of
        Inl e \<Rightarrow> Inl e
      | Inr s \<Rightarrow> Inr (string_to_number eng s))"

text \<open>\<^verbatim>\<open>a * b\<close> and \<^verbatim>\<open>a / b\<close>: both operands are converted, the left one first.\<close>

definition js_mul :: "engine \<Rightarrow> jsval \<Rightarrow> jsval \<Rightarrow> error + jsval" where
  "js_mul eng a b =
     (case to_number eng a of
        Inl e \<Rightarrow> Inl e
      | Inr x \<Rightarrow>
          (case to_number eng b of
             Inl e \<Rightarrow> Inl e
           | Inr y \<Rightarrow> Inr (mul_numbers x y)))"

definition js_div :: "engine \<Rightarrow> jsval \<Rightarrow> jsval \<Rightarrow> error + jsval" where
  "js_div eng a b =
     (case to_number eng a of
        Inl e \<Rightarrow> Inl e
      | Inr x \<Rightarrow>
          (case to_number eng b of
             Inl e \<Rightarrow> Inl e
           | Inr y \<Rightarrow> Inr (div_numbers x y)))"

subsection \<open>Reading a property\<close>

text \<open>
  What a plain object inherits from \<^verbatim>\<open>Object.prototype\<close>: eleven functions and the
  accessor \<^verbatim>\<open>__proto__\<close>, which returns the prototype itself, an object without
  enumerable properties.
\<close>

definition object_prototype_members :: "string list" where
  "object_prototype_members =
     [''constructor'', ''__defineGetter__'', ''__defineSetter__'', ''hasOwnProperty'',
      ''__lookupGetter__'', ''__lookupSetter__'', ''isPrototypeOf'', ''propertyIsEnumerable'',
      ''toString'', ''valueOf'', ''__proto__'', ''toLocaleString'']"

definition inherited_member :: "string \<Rightarrow> jsval" where
  "inherited_member key =
     (if key = ''__proto__'' then Obj []
      else if key = ''constructor'' then Fun ''Object''
      else if key \<in> set object_prototype_members then Fun key
      else Undefined)"

text \<open>The index a property name denotes: a numeral without a leading zero.\<close>

definition index_of :: "string \<Rightarrow> nat option" where
  "index_of key =
     (case key of
        [] \<Rightarrow> None
      | c # cs \<Rightarrow>
          if list_all is_digit key \<and> (cs = [] \<or> c \<noteq> CHR ''0'') then Some (digits_value key)
          else None)"

text \<open>
  \<^verbatim>\<open>obj[key]\<close> for a value that is neither \<^verbatim>\<open>undefined\<close> nor \<^verbatim>\<open>null\<close>
  (\<open>read_prop\<close>), and the read with its TypeError (\<open>js_get\<close>): an own property first,
  then the prototype. No prototype has a member at an index.
\<close>

fun read_prop :: "engine \<Rightarrow> jsval \<Rightarrow> string \<Rightarrow> jsval" where
  "read_prop eng (Obj kvs) key =
     (case map_of kvs key of None \<Rightarrow> inherited_member key | Some v \<Rightarrow> v)"
| "read_prop eng (Arr xs) key =
     (case index_of key of
        Some i \<Rightarrow> if i < length xs then xs ! i else Undefined
      | None \<Rightarrow>
          if key = ''length'' then Num (real (length xs))
          else exotic_member eng (Arr xs) key)"
| "read_prop eng (Str s) key =
     (case index_of key of
        Some i \<Rightarrow> if i < length s then Str [s ! i] else Undefined
      | None \<Rightarrow>
          if key = ''length'' then Num (real (length s))
          else exotic_member eng (Str s) key)"
| "read_prop eng Undefined key = Undefined"
| "read_prop eng Null key = Undefined"
| "read_prop eng v key =
     (case index_of key of Some i \<Rightarrow> Undefined | None \<Rightarrow> exotic_member eng v key)"

definition js_get :: "engine \<Rightarrow> jsval \<Rightarrow> string \<Rightarrow> error + jsval" where
  "js_get eng obj key = (if nullish obj then Inl TypeError else Inr (read_prop eng obj key))"

section \<open>Record normalizer: \<^verbatim>\<open>replaceUndefined\<close> (utils.js)\<close>

text \<open>
  The second loop of \<^verbatim>\<open>replaceUndefined\<close>:
  \<^verbatim>\<open>for (const key of requiredKeys) if (!(key in obj)) obj[key] = null;\<close>
\<close>

fun ensure_keys :: "jsval \<Rightarrow> string list \<Rightarrow> error + jsval" where
  "ensure_keys obj [] = Inr obj"
| "ensure_keys obj (key # keys) =
     (case js_in key obj of
        Inl e \<Rightarrow> Inl e
      | Inr present \<Rightarrow>
          if \<not> present then
            (case js_set obj key Null of
               Inl e \<Rightarrow> Inl e
             | Inr obj' \<Rightarrow> ensure_keys obj' keys)
          else ensure_keys obj keys)"

text \<open>
  The function mutates its argument in place and returns it; the model returns the
  updated value. \<open>for_in\<close> and \<open>for_in_array\<close> are the first loop over the properties
  of an object and over the indices of an array, \<open>for_in_body\<close> is its body applied to
  the value \<^verbatim>\<open>obj[key]\<close>, and \<open>map_item\<close> is the callback handed to
  \<^verbatim>\<open>Array.prototype.map\<close>. The recursive calls pass no required keys, so the
  parameter takes its default \<^verbatim>\<open>[]\<close>. Only an object or an array passes the guard
  \<^verbatim>\<open>obj && typeof obj === "object"\<close>, so the last branch of the case is never taken.
\<close>

fun replaceUndefined :: "jsval \<Rightarrow> string list \<Rightarrow> error + jsval"
  and for_in :: "(string \<times> jsval) list \<Rightarrow> error + (string \<times> jsval) list"
  and for_in_array :: "jsval list \<Rightarrow> error + jsval list"
  and for_in_body :: "jsval \<Rightarrow> error + jsval"
  and map_items :: "jsval list \<Rightarrow> error + jsval list"
  and map_item :: "jsval \<Rightarrow> error + jsval"
where
  "replaceUndefined obj requiredKeys =
     (if truthy obj \<and> typeof obj = ''object'' then
        (case obj of
           Obj kvs \<Rightarrow>
             (case for_in kvs of
                Inl e \<Rightarrow> Inl e
              | Inr kvs' \<Rightarrow> ensure_keys (Obj kvs') requiredKeys)
         | Arr xs \<Rightarrow>
             (case for_in_array xs of
                Inl e \<Rightarrow> Inl e
              | Inr xs' \<Rightarrow> ensure_keys (Arr xs') requiredKeys)
         | _ \<Rightarrow> Inr obj)
      else Inr obj)"
| "for_in [] = Inr []"
| "for_in ((key, v) # kvs) =
     (case for_in_body v of
        Inl e \<Rightarrow> Inl e
      | Inr v' \<Rightarrow>
          (case for_in kvs of
             Inl e \<Rightarrow> Inl e
           | Inr kvs' \<Rightarrow> Inr ((key, v') # kvs')))"
| "for_in_array [] = Inr []"
| "for_in_array (v # vs) =
     (case for_in_body v of
        Inl e \<Rightarrow> Inl e
      | Inr v' \<Rightarrow>
          (case for_in_array vs of
             Inl e \<Rightarrow> Inl e
           | Inr vs' \<Rightarrow> Inr (v' # vs')))"
| "for_in_body v =
     (if v = Undefined then Inr Null
      else if isArray v then
        (case v of
           Arr items \<Rightarrow>
             (case map_items items of
                Inl e \<Rightarrow> Inl e
              | Inr items' \<Rightarrow> Inr (Arr items'))
         | _ \<Rightarrow> Inr v)
      else if typeof v = ''object'' \<and> v \<noteq> Null then replaceUndefined v []
      else Inr v)"
| "map_items [] = Inr []"
| "map_items (item # items) =
     (case map_item item of
        Inl e \<Rightarrow> Inl e
      | Inr item' \<Rightarrow>
          (case map_items items of
             Inl e \<Rightarrow> Inl e
           | Inr items' \<Rightarrow> Inr (item' # items')))"
| "map_item item =
     (if typeof item = ''object'' \<and> item \<noteq> Null then replaceUndefined item []
      else if item = Undefined then Inr Null
      else Inr item)"


text \<open>The value is an object that has the key, with a value other than \<^verbatim>\<open>undefined\<close>.\<close>

fun has_field :: "jsval \<Rightarrow> string \<Rightarrow> bool" where
  "has_field (Obj kvs) key =
     (case map_of kvs key of None \<Rightarrow> False | Some v \<Rightarrow> v \<noteq> Undefined)"
| "has_field v key = False"


text \<open>The required keys \<^verbatim>\<open>postCountries\<close> passes (controller.js, lines 100-107).\<close>

definition required_fields :: "string list" where
  "required_fields = [''name'', ''capital'', ''region'', ''population'', ''currencies'', ''flag'']"

section \<open>GDP estimator (controller.js, lines 113-128)\<close>

text \<open>\<^verbatim>\<open>currencies?.[0]?.code ?? null\<close>\<close>

definition currency_code_of :: "engine \<Rightarrow> jsval \<Rightarrow> jsval" where
  "currency_code_of eng currencies =
     (let first = (if nullish currencies then Undefined else read_prop eng currencies ''0'');
          code = (if nullish first then Undefined else read_prop eng first ''code'')
      in if nullish code then Null else code)"

text \<open>
  \<^verbatim>\<open>exchangeRateData[currencyCode]\<close>: the key is converted to a property name (the
  code 840 reads the property \<^verbatim>\<open>"840"\<close>), and the read sees what the table inherits.
\<close>

definition js_get_computed :: "engine \<Rightarrow> jsval \<Rightarrow> jsval \<Rightarrow> error + jsval" where
  "js_get_computed eng obj key =
     (if nullish obj then Inl TypeError
      else
        (case to_string eng key of
           Inl e \<Rightarrow> Inl e
         | Inr s \<Rightarrow> Inr (read_prop eng obj s)))"

text \<open>
  \<^verbatim>\<open>currencyCode ? (exchangeRateData[currencyCode] ? exchangeRateData[currencyCode] : null) : null\<close>
\<close>

definition exchange_rate_of :: "engine \<Rightarrow> jsval \<Rightarrow> jsval \<Rightarrow> error + jsval" where
  "exchange_rate_of eng exchangeRateData currencyCode =
     (if truthy currencyCode then
        (case js_get_computed eng exchangeRateData currencyCode of
           Inl e \<Rightarrow> Inl e
         | Inr rate \<Rightarrow> Inr (if truthy rate then rate else Null))
      else Inr Null)"

text \<open>
  \<^verbatim>\<open>Math.floor(Math.random() * (2000 - 1000 + 1)) + 1000\<close>, as a function of the value
  \<open>u\<close> that \<^verbatim>\<open>Math.random()\<close> returned: a double from 0 up to, and not including,
  1. The product is rounded; the floor and the sum are exact.
\<close>

definition randomNumber :: "real \<Rightarrow> int" where
  "randomNumber u = \<lfloor>round_double (u * (2000 - 1000 + 1))\<rfloor> + 1000"

text \<open>
  \<^verbatim>\<open>currencyCode ? (exchange_rate ? population * (randomNumber / exchange_rate) : null) : 0\<close>.
  The quotient is computed, and its divisor converted, before the factors of the
  product are converted.
\<close>

definition estimated_gdp_of :: "engine \<Rightarrow> jsval \<Rightarrow> jsval \<Rightarrow> jsval \<Rightarrow> int \<Rightarrow> error + jsval" where
  "estimated_gdp_of eng population currencyCode exchange_rate r =
     (if truthy currencyCode then
        (if truthy exchange_rate then
           (case js_div eng (Num (of_int r)) exchange_rate of
              Inl e \<Rightarrow> Inl e
            | Inr ratio \<Rightarrow> js_mul eng population ratio)
         else Inr Null)
      else Inr (Num 0))"

text \<open>
  The estimator as one function of the population, the currency code, the rate table and
  the random draw: the rate lookup followed by the estimate.
\<close>

definition estimate_gdp :: "engine \<Rightarrow> jsval \<Rightarrow> jsval \<Rightarrow> jsval \<Rightarrow> real \<Rightarrow> error + jsval" where
  "estimate_gdp eng population currencyCode exchangeRateData u =
     (case exchange_rate_of eng exchangeRateData currencyCode of
        Inl e \<Rightarrow> Inl e
      | Inr exchange_rate \<Rightarrow>
          estimated_gdp_of eng population currencyCode exchange_rate (randomNumber u))"

section \<open>The countries table\<close>

text \<open>
  The columns of \<^verbatim>\<open>CREATE TABLE countries\<close> (controller.js, lines 67-81), but for the
  surrogate \<^verbatim>\<open>id\<close>, which no statement of the program reads or writes. A column holds
  the value that was bound to it: the conversions of the column types (rounding of a
  DECIMAL, length of a VARCHAR) and the collation that compares names are the
  database's and are not modelled. \<open>estimated_gdp\<close> is a number or NULL.
\<close>

type_synonym time = nat

record country_row =
  name :: jsval
  capital :: jsval
  region :: jsval
  population :: jsval
  currency_code :: jsval
  exchange_rate :: jsval
  estimated_gdp :: "real option"
  flag_url :: jsval
  last_refreshed_at :: time
  created_at :: time

text \<open>The nine values bound to the placeholders of the INSERT (lines 152-162).\<close>

record bind_params =
  p_name :: jsval
  p_capital :: jsval
  p_region :: jsval
  p_population :: jsval
  p_currency_code :: jsval
  p_exchange_rate :: jsval
  p_estimated_gdp :: jsval
  p_flag_url :: jsval
  p_last_refreshed_at :: time

text \<open>
  The row the INSERT creates: the bound values, and \<^verbatim>\<open>created_at\<close> by its default
  \<^verbatim>\<open>CURRENT_TIMESTAMP\<close>.
\<close>

definition inserted_row :: "time \<Rightarrow> bind_params \<Rightarrow> real option \<Rightarrow> country_row" where
  "inserted_row db_now p gdp =
     \<lparr>name = p_name p, capital = p_capital p, region = p_region p,
      population = p_population p, currency_code = p_currency_code p,
      exchange_rate = p_exchange_rate p, estimated_gdp = gdp, flag_url = p_flag_url p,
      last_refreshed_at = p_last_refreshed_at p, created_at = db_now\<rparr>"

text \<open>
  The assignments of \<^verbatim>\<open>ON DUPLICATE KEY UPDATE\<close> (lines 140-148), where
  \<^verbatim>\<open>VALUES(c)\<close> is column \<open>c\<close> of the row that was to be inserted.
\<close>

definition on_duplicate_key_update :: "country_row \<Rightarrow> country_row \<Rightarrow> country_row" where
  "on_duplicate_key_update old new =
     old\<lparr>capital := capital new,
         region := region new,
         population := population new,
         currency_code := currency_code new,
         exchange_rate := exchange_rate new,
         estimated_gdp := estimated_gdp new,
         flag_url := flag_url new,
         last_refreshed_at := last_refreshed_at new\<rparr>"

text \<open>
  \<^verbatim>\<open>INSERT ... ON DUPLICATE KEY UPDATE\<close> on the table whose unique key is
  \<^verbatim>\<open>name\<close>: the row with the name of the new one is updated, and when there is none
  the new row is appended.
\<close>

fun upsert :: "country_row \<Rightarrow> country_row list \<Rightarrow> country_row list" where
  "upsert new [] = [new]"
| "upsert new (r # rs) =
     (if name r = name new then on_duplicate_key_update r new # rs
      else r # upsert new rs)"

text \<open>
  The value of a DECIMAL column for a bound value; \<^verbatim>\<open>NaN\<close> and the infinities
  have none.
\<close>

fun sql_decimal :: "jsval \<Rightarrow> real option option" where
  "sql_decimal (Num x) = Some (Some x)"
| "sql_decimal Null = Some None"
| "sql_decimal v = None"

text \<open>
  \<^verbatim>\<open>pool.execute(sql, [...])\<close>. The driver refuses a bound \<^verbatim>\<open>undefined\<close> and a
  bound function with a TypeError; the server refuses NULL for the NOT NULL column
  \<^verbatim>\<open>name\<close> and a value that is no decimal for \<^verbatim>\<open>estimated_gdp\<close>. Every other reason for which the
  statement may fail (connection lost, a value too long for its column) is the input
  \<open>fault\<close>. A statement that fails leaves the table as it was; one that succeeds is
  committed at once (there is no transaction).
\<close>

definition refused_by_driver :: "jsval \<Rightarrow> bool" where
  "refused_by_driver v = (v = Undefined \<or> typeof v = ''function'')"

definition execute_upsert ::
  "bool \<Rightarrow> time \<Rightarrow> bind_params \<Rightarrow> country_row list \<Rightarrow> error + country_row list" where
  "execute_upsert fault db_now p rows =
     (if list_ex refused_by_driver [p_name p, p_capital p, p_region p, p_population p,
           p_currency_code p, p_exchange_rate p, p_estimated_gdp p, p_flag_url p]
      then Inl TypeError
      else if fault \<or> p_name p = Null then Inl DbError
      else
        (case sql_decimal (p_estimated_gdp p) of
           None \<Rightarrow> Inl DbError
         | Some gdp \<Rightarrow> Inr (upsert (inserted_row db_now p gdp) rows)))"

text \<open>
  Modelled from the spec: the place of NULL in \<^verbatim>\<open>ORDER BY estimated_gdp DESC\<close> (lines
  42 and 173) is the database server's and is not in the repository. The pool of
  \<^verbatim>\<open>database.js\<close> is a \<^verbatim>\<open>mysql2\<close> pool; MySQL orders NULL below every value, so
  that a descending order puts it last, which is what the specification says
  (``descending, nulls last''). \<open>gdp_desc a b\<close>: a row with key \<open>a\<close> may stand before a
  row with key \<open>b\<close>. The server sorts the selected rows by this order and is free in
  the order of rows with equal keys; \<open>order_by_gdp_desc\<close> is one such sort, by insertion.
\<close>

fun gdp_desc :: "real option \<Rightarrow> real option \<Rightarrow> bool" where
  "gdp_desc a None = True"
| "gdp_desc None (Some y) = False"
| "gdp_desc (Some x) (Some y) = (y \<le> x)"

fun insert_desc :: "country_row \<Rightarrow> country_row list \<Rightarrow> country_row list" where
  "insert_desc r [] = [r]"
| "insert_desc r (s # ss) =
     (if gdp_desc (estimated_gdp s) (estimated_gdp r) then s # insert_desc r ss
      else r # s # ss)"

definition order_by_gdp_desc :: "country_row list \<Rightarrow> country_row list" where
  "order_by_gdp_desc rows = foldr insert_desc rows []"

text \<open>
  The later version of the listing (in \<^verbatim>\<open>src/database.js\<close>) writes the place of NULL
  out: \<^verbatim>\<open>ORDER BY estimated_gdp IS NULL ASC, estimated_gdp DESC\<close>. The first key is
  0 or 1; the second one decides between rows that agree on the first, which are two
  values or two NULLs.
\<close>

definition is_null :: "real option \<Rightarrow> nat" where
  "is_null a = (case a of None \<Rightarrow> 1 | Some x \<Rightarrow> 0)"

definition is_null_asc_gdp_desc :: "real option \<Rightarrow> real option \<Rightarrow> bool" where
  "is_null_asc_gdp_desc a b =
     (is_null a < is_null b \<or>
      (is_null a = is_null b \<and>
       (case (a, b) of (Some x, Some y) \<Rightarrow> y \<le> x | other \<Rightarrow> True)))"

text \<open>
  \<^verbatim>\<open>SELECT name, estimated_gdp FROM countries ORDER BY estimated_gdp DESC LIMIT 5\<close>
\<close>

definition top5_query :: "country_row list \<Rightarrow> (jsval \<times> real option) list" where
  "top5_query rows = map (\<lambda>r. (name r, estimated_gdp r)) (take 5 (order_by_gdp_desc rows))"

section \<open>The refresh run: \<^verbatim>\<open>postCountries\<close> (controller.js, lines 64-188)\<close>

text \<open>
  What one run receives from outside the program: the engine it runs on, the answers of
  the two sources, the draws of \<^verbatim>\<open>Math.random()\<close> and the clocks (indexed by the
  position of the record in the loop), and whether a statement or the rendering fails.
\<close>

datatype http_result =
    NetworkError
  | HttpResponse nat "jsval option"

text \<open>
  \<open>HttpResponse status body\<close>: the source answered with this status; \<open>body\<close> is what
  \<^verbatim>\<open>response.json()\<close> parses, \<open>None\<close> when the body is not JSON and the call raises
  a SyntaxError. \<open>NetworkError\<close>: \<^verbatim>\<open>fetch\<close> itself rejects.
\<close>

record env =
  js_engine :: engine
  create_fault :: bool
  countries_fetch :: http_result
  rates_fetch :: http_result
  math_random :: "nat \<Rightarrow> real"
  js_clock :: "nat \<Rightarrow> time"
  db_clock :: "nat \<Rightarrow> time"
  upsert_fault :: "nat \<Rightarrow> bool"
  select_fault :: bool
  render_fault :: bool
  render_clock :: time

text \<open>The summary image, by what it shows (utils.js, lines 10-30).\<close>

record summary =
  total_countries :: nat
  top_countries :: "(jsval \<times> real option) list"
  updated_at :: time

text \<open>What persists between requests: the table and the file \<^verbatim>\<open>cache/summary.png\<close>.\<close>

record world =
  countries :: "country_row list"
  summary_file :: "summary option"

datatype body =
    Message string
  | ErrorMessage string
  | CountryList "country_row list"
  | StatusInfo nat time

type_synonym response = "nat \<times> body"

definition generateSummaryImage ::
  "bool \<Rightarrow> nat \<Rightarrow> (jsval \<times> real option) list \<Rightarrow> time \<Rightarrow> error + summary" where
  "generateSummaryImage fault n topCountries timestamp =
     (if fault then Inl RenderError
      else Inr \<lparr>total_countries = n, top_countries = topCountries, updated_at = timestamp\<rparr>)"

text \<open>
  The records the loop \<^verbatim>\<open>for (let i = 0; i < countriesData.length; i++)\<close> visits, in
  order. Reading \<^verbatim>\<open>length\<close> of \<^verbatim>\<open>null\<close> raises. An array gives its elements and a
  string its characters. Any other value is read at the keys \<^verbatim>\<open>"0"\<close>, \<^verbatim>\<open>"1"\<close>, ...
  as long as the index is below its \<^verbatim>\<open>length\<close>, which the comparison converts to a
  number: none for \<^verbatim>\<open>NaN\<close>. Under an infinite length (\<^verbatim>\<open>{"length": 1e999}\<close>) the
  loop goes on until the body raises, which it does at the first index the value has no
  property for, where the record is \<^verbatim>\<open>undefined\<close>: the records are listed up to
  \<open>cap\<close>, a bound with such an index below it.
\<close>

definition iterations :: "nat \<Rightarrow> jsval \<Rightarrow> nat" where
  "iterations cap len = (case len of Num x \<Rightarrow> nat \<lceil>x\<rceil> | PosInf \<Rightarrow> cap | other \<Rightarrow> 0)"

definition indexed_records :: "engine \<Rightarrow> nat \<Rightarrow> jsval \<Rightarrow> error + jsval list" where
  "indexed_records eng cap v =
     (case to_number eng (read_prop eng v ''length'') of
        Inl e \<Rightarrow> Inl e
      | Inr len \<Rightarrow> Inr (map (\<lambda>i. read_prop eng v (show_nat i)) [0..<iterations cap len]))"

fun records_of :: "engine \<Rightarrow> jsval \<Rightarrow> error + jsval list" where
  "records_of eng Undefined = Inl TypeError"
| "records_of eng Null = Inl TypeError"
| "records_of eng (Arr xs) = Inr xs"
| "records_of eng (Str s) = Inr (map (\<lambda>c. Str [c]) s)"
| "records_of eng (Obj kvs) = indexed_records eng (Suc (length kvs)) (Obj kvs)"
| "records_of eng v = indexed_records eng 1 v"

text \<open>
  The body of the loop for the record at position \<open>i\<close> (lines 100-162): normalize,
  destructure (a TypeError on \<^verbatim>\<open>null\<close> and \<^verbatim>\<open>undefined\<close>), estimate, upsert.
\<close>

definition process_country ::
  "env \<Rightarrow> jsval \<Rightarrow> nat \<Rightarrow> jsval \<Rightarrow> country_row list \<Rightarrow> error + country_row list" where
  "process_country e exchangeRateData i raw rows =
     (case replaceUndefined raw required_fields of
        Inl err \<Rightarrow> Inl err
      | Inr country \<Rightarrow>
          if nullish country then Inl TypeError
          else
            (let eng = js_engine e;
                 currencyCode = currency_code_of eng (read_prop eng country ''currencies'') in
             case exchange_rate_of eng exchangeRateData currencyCode of
               Inl err \<Rightarrow> Inl err
             | Inr rate \<Rightarrow>
                 (case estimated_gdp_of eng (read_prop eng country ''population'') currencyCode
                         rate (randomNumber (math_random e i)) of
                    Inl err \<Rightarrow> Inl err
                  | Inr gdp \<Rightarrow>
                      execute_upsert (upsert_fault e i) (db_clock e i)
                        \<lparr>p_name = read_prop eng country ''name'',
                         p_capital = read_prop eng country ''capital'',
                         p_region = read_prop eng country ''region'',
                         p_population = read_prop eng country ''population'',
                         p_currency_code = currencyCode,
                         p_exchange_rate = rate,
                         p_estimated_gdp = gdp,
                         p_flag_url = read_prop eng country ''flag'',
                         p_last_refreshed_at = js_clock e i\<rparr>
                        rows)))"

text \<open>
  The loop. An exception leaves it at once, with the table as the statements before it
  left it.
\<close>

fun for_each_country ::
  "env \<Rightarrow> jsval \<Rightarrow> nat \<Rightarrow> jsval list \<Rightarrow> country_row list \<Rightarrow> error option \<times> country_row list" where
  "for_each_country e exchangeRateData i [] rows = (None, rows)"
| "for_each_country e exchangeRateData i (raw # rest) rows =
     (case process_country e exchangeRateData i raw rows of
        Inl err \<Rightarrow> (Some err, rows)
      | Inr rows' \<Rightarrow> for_each_country e exchangeRateData (Suc i) rest rows')"

text \<open>
  The \<^verbatim>\<open>try\<close> block: the exception that left it, if any, and the state it leaves.
  The status of neither response is looked at.
\<close>

definition refresh :: "env \<Rightarrow> world \<Rightarrow> error option \<times> world" where
  "refresh e w =
     (if create_fault e then (Some DbError, w)
      else
        (case countries_fetch e of
           NetworkError \<Rightarrow> (Some FetchError, w)
         | HttpResponse status1 body1 \<Rightarrow>
        (case rates_fetch e of
           NetworkError \<Rightarrow> (Some FetchError, w)
         | HttpResponse status2 body2 \<Rightarrow>
        (case body1 of
           None \<Rightarrow> (Some SyntaxError, w)
         | Some countriesData \<Rightarrow>
        (case body2 of
           None \<Rightarrow> (Some SyntaxError, w)
         | Some ratesBody \<Rightarrow>
        (case js_get (js_engine e) ratesBody ''rates'' of
           Inl err \<Rightarrow> (Some err, w)
         | Inr exchangeRateData \<Rightarrow>
        (case records_of (js_engine e) countriesData of
           Inl err \<Rightarrow> (Some err, w)
         | Inr records \<Rightarrow>
        (case for_each_country e exchangeRateData 0 records (countries w) of
           (Some err, rows) \<Rightarrow> (Some err, w\<lparr>countries := rows\<rparr>)
         | (None, rows) \<Rightarrow>
             if select_fault e then (Some DbError, w\<lparr>countries := rows\<rparr>)
             else
               (case generateSummaryImage (render_fault e) (length rows) (top5_query rows)
                       (render_clock e) of
                  Inl err \<Rightarrow> (Some err, w\<lparr>countries := rows\<rparr>)
                | Inr img \<Rightarrow> (None, \<lparr>countries = rows, summary_file = Some img\<rparr>))))))))))"

text \<open>The handler: 201 when the block completes, and the one 500 of its \<^verbatim>\<open>catch\<close>.\<close>

definition postCountries :: "env \<Rightarrow> world \<Rightarrow> response \<times> world" where
  "postCountries e w =
     (case refresh e w of
        (None, w') \<Rightarrow> ((201, Message ''data refreshed''), w')
      | (Some err, w') \<Rightarrow> ((500, ErrorMessage ''Failed to fetch country data''), w'))"

text \<open>A sequence of refresh runs, each with its own inputs.\<close>

definition refresh_runs :: "env list \<Rightarrow> world \<Rightarrow> world" where
  "refresh_runs es w = fold (\<lambda>e w'. snd (postCountries e w')) es w"

text \<open>
  The repository ships a second version of the handler (in \<^verbatim>\<open>src/database.js\<close>, after
  the pool), which wraps the fetch stage in its own \<^verbatim>\<open>try\<close> blocks: a rejected
  \<^verbatim>\<open>fetch\<close>, a response whose \<^verbatim>\<open>ok\<close> is false and a body that does not parse
  each answer 502 before anything is written. Past that stage its code is that of
  \<open>postCountries\<close>, which on such inputs passes its own fetch stage unchanged.
\<close>

definition response_ok :: "nat \<Rightarrow> bool" where
  "response_ok status = (200 \<le> status \<and> status < 300)"

definition postCountries_checked :: "env \<Rightarrow> world \<Rightarrow> response \<times> world" where
  "postCountries_checked e w =
     (if create_fault e then ((500, ErrorMessage ''Failed to fetch country data''), w)
      else
        (case countries_fetch e of
           NetworkError \<Rightarrow>
             ((502, ErrorMessage ''Failed to fetch countries data from external API''), w)
         | HttpResponse status1 body1 \<Rightarrow>
             if \<not> response_ok status1 then
               ((502, ErrorMessage ''Failed to fetch countries data from external API''), w)
             else
        (case rates_fetch e of
           NetworkError \<Rightarrow>
             ((502, ErrorMessage ''Failed to fetch exchange rates from external API''), w)
         | HttpResponse status2 body2 \<Rightarrow>
             if \<not> response_ok status2 then
               ((502, ErrorMessage ''Failed to fetch exchange rates from external API''), w)
             else
        (case body1 of
           None \<Rightarrow> ((502, ErrorMessage ''Invalid response from external APIs''), w)
         | Some countriesData \<Rightarrow>
        (case body2 of
           None \<Rightarrow> ((502, ErrorMessage ''Invalid response from external APIs''), w)
         | Some ratesBody \<Rightarrow>
        (case js_get (js_engine e) ratesBody ''rates'' of
           Inl err \<Rightarrow> ((502, ErrorMessage ''Invalid response from external APIs''), w)
         | Inr exchangeRateData \<Rightarrow> postCountries e w))))))"

section \<open>The read handlers\<close>

text \<open>
  \<^verbatim>\<open>getCountries\<close> (lines 13-55). A query parameter is absent (\<open>None\<close>) or a string;
  a filter is added when the string is not empty.
\<close>

definition matches :: "string option \<Rightarrow> jsval \<Rightarrow> bool" where
  "matches q v = (case q of None \<Rightarrow> True | Some s \<Rightarrow> if s \<noteq> [] then v = Str s else True)"

definition getCountries ::
  "bool \<Rightarrow> string option \<Rightarrow> string option \<Rightarrow> string option \<Rightarrow> country_row list \<Rightarrow> response" where
  "getCountries fault region_q currency_q sort_q rows =
     (if fault then (500, ErrorMessage ''Database query failed'')
      else
        (let selected = filter (\<lambda>r. matches region_q (region r) \<and>
                                   matches currency_q (currency_code r)) rows
         in (200, CountryList
               (if sort_q = Some ''gdp_desc'' then order_by_gdp_desc selected else selected))))"

text \<open>
  \<^verbatim>\<open>getStatus\<close> (lines 196-204) has no \<^verbatim>\<open>try\<close>: \<^verbatim>\<open>row[0]\<close> is \<^verbatim>\<open>undefined\<close> on
  an empty result, and reading its \<^verbatim>\<open>last_refreshed_at\<close> raises a TypeError that
  nothing catches, so no response is sent.
\<close>

definition getStatus :: "bool \<Rightarrow> country_row list \<Rightarrow> error + response" where
  "getStatus fault rows =
     (if fault then Inl DbError
      else
        (case rows of
           [] \<Rightarrow> Inl TypeError
         | first # others \<Rightarrow> Inr (200, StatusInfo (length rows) (last_refreshed_at first))))"

section \<open>Sample inputs\<close>

text \<open>
  The scenario of the specification: country A with currency AAA, population 1000 and a
  rate of 10, and country B without a currency; and a row for France as an earlier run
  left it, with the values a later run binds for it. No input of the scenario reaches
  the tables of the engine.
\<close>

definition sample_engine :: engine where
  "sample_engine =
     \<lparr>parse_number = (\<lambda>s. NaN),
      show_number = (\<lambda>x. ''''),
      exotic_member = (\<lambda>v key. Undefined)\<rparr>"

definition sample_env :: env where
  "sample_env =
     \<lparr>js_engine = sample_engine,
      create_fault = False,
      countries_fetch = HttpResponse 200 (Some (Arr
        [Obj [(''name'', Str ''A''), (''population'', Num 1000),
              (''currencies'', Arr [Obj [(''code'', Str ''AAA'')]])],
         Obj [(''name'', Str ''B''), (''population'', Num 5)]])),
      rates_fetch = HttpResponse 200 (Some (Obj [(''rates'', Obj [(''AAA'', Num 10)])])),
      math_random = (\<lambda>i. 1 / 2),
      js_clock = (\<lambda>i. 7),
      db_clock = (\<lambda>i. 8),
      upsert_fault = (\<lambda>i. False),
      select_fault = False,
      render_fault = False,
      render_clock = 9\<rparr>"

definition empty_world :: world where
  "empty_world = \<lparr>countries = [], summary_file = None\<rparr>"

definition row_A :: country_row where
  "row_A = \<lparr>name = Str ''A'', capital = Null, region = Null, population = Num 1000,
     currency_code = Str ''AAA'', exchange_rate = Num 10, estimated_gdp = Some 150000,
     flag_url = Null, last_refreshed_at = 7, created_at = 8\<rparr>"

definition row_B :: country_row where
  "row_B = \<lparr>name = Str ''B'', capital = Null, region = Null, population = Num 5,
     currency_code = Null, exchange_rate = Null, estimated_gdp = Some 0,
     flag_url = Null, last_refreshed_at = 7, created_at = 8\<rparr>"

definition france_old :: country_row where
  "france_old = \<lparr>name = Str ''France'', capital = Str ''Lutece'', region = Str ''Gaul'',
     population = Num 100, currency_code = Str ''FRF'', exchange_rate = Num 6,
     estimated_gdp = None, flag_url = Null, last_refreshed_at = 3, created_at = 1\<rparr>"

definition france_params :: bind_params where
  "france_params = \<lparr>p_name = Str ''France'', p_capital = Str ''Paris'',
     p_region = Str ''Europe'', p_population = Num 200, p_currency_code = Str ''EUR'',
     p_exchange_rate = Num 2, p_estimated_gdp = Num 150000, p_flag_url = Str ''fr.svg'',
     p_last_refreshed_at = 7\<rparr>"

definition france_new :: country_row where
  "france_new = \<lparr>name = Str ''France'', capital = Str ''Paris'', region = Str ''Europe'',
     population = Num 200, currency_code = Str ''EUR'', exchange_rate = Num 2,
     estimated_gdp = Some 150000, flag_url = Str ''fr.svg'', last_refreshed_at = 7,
     created_at = 1\<rparr>"

section \<open>The normalizer is total\<close>

declare replaceUndefined.simps [simp del] for_in_body.simps [simp del] map_item.simps [simp del]









text \<open>
  Claim C10. An input that is not a non-null object (\<^verbatim>\<open>undefined\<close>, \<^verbatim>\<open>null\<close>, a
  boolean, a number, a string) is returned unchanged and has none of the required keys:
  the guarantee of the required fields holds for object inputs only.
\<close>

theorem replaceUndefined_primitive:
  "typeof v \<noteq> ''object'' \<or> v = Null \<Longrightarrow>
   replaceUndefined v requiredKeys = Inr v \<and> (\<forall>key. \<not> has_field v key)"
  by (cases v) (auto simp: replaceUndefined.simps)

theorem replaceUndefined_primitive_witness:
  "replaceUndefined Null required_fields = Inr Null \<and> \<not> has_field Null ''name'' \<and>
   replaceUndefined (Num 5) required_fields = Inr (Num 5) \<and> \<not> has_field (Num 5) ''name''"
  using replaceUndefined_primitive [of Null required_fields]
    replaceUndefined_primitive [of "Num 5" required_fields]
  by simp

section \<open>The status handler\<close>

text \<open>
  Claim C9. \<open>getStatus\<close> reads the first row of the result without a check. On an empty
  table it raises a TypeError and sends no response; on a table with at least one row it
  answers 200 with the number of rows and \<^verbatim>\<open>last_refreshed_at\<close> of the first row.
  The handler raises exactly when the table is empty (the query itself succeeding).
\<close>

theorem getStatus_first_row:
  "getStatus False [] = Inl TypeError \<and>
   getStatus False (r # rs) = Inr (200, StatusInfo (Suc (length rs)) (last_refreshed_at r)) \<and>
   ((\<exists>err. getStatus False rows = Inl err) \<longleftrightarrow> rows = [])"
  by (cases rows) (simp_all add: getStatus_def)


section \<open>Rounding to a double is monotone\<close>

lemma powi_nat: "0 \<le> k \<Longrightarrow> (2::real) powi k = 2 ^ nat k"
  by (simp add: power_int_def)

lemma powi_neg: "0 \<le> k \<Longrightarrow> (2::real) powi (- k) = inverse (2 ^ nat k)"
  by (simp add: power_int_minus powi_nat)

lemma binade_bounds:
  assumes "0 < x"
  shows "2 powi binade x \<le> x \<and> x < 2 powi (binade x + 1)"
proof (cases "1 \<le> x")
  case True
  then have fl: "0 < \<lfloor>x\<rfloor>" by simp
  from bitlen_bounds [OF fl] have
    b: "2 ^ nat (bitlen \<lfloor>x\<rfloor> - 1) \<le> \<lfloor>x\<rfloor>" "\<lfloor>x\<rfloor> < 2 ^ nat (bitlen \<lfloor>x\<rfloor>)" by auto
  from fl have pos: "1 \<le> bitlen \<lfloor>x\<rfloor>"
    by (metis bitlen_eq_zero_iff bitlen_nonneg not_less add_0 zless_imp_add1_zle order.order_iff_strict)
  have "(2::real) ^ nat (bitlen \<lfloor>x\<rfloor> - 1) \<le> of_int \<lfloor>x\<rfloor>"
    using b(1) by simp
  then have "(2::real) ^ nat (bitlen \<lfloor>x\<rfloor> - 1) \<le> x"
    using of_int_floor_le [of x] by linarith
  then have lo: "2 powi (bitlen \<lfloor>x\<rfloor> - 1) \<le> x"
    using pos by (simp add: powi_nat)
  have "\<lfloor>x\<rfloor> + 1 \<le> 2 ^ nat (bitlen \<lfloor>x\<rfloor>)" using b(2) by simp
  then have "of_int (\<lfloor>x\<rfloor> + 1) \<le> (2::real) ^ nat (bitlen \<lfloor>x\<rfloor>)"
    by (metis of_int_le_iff of_int_numeral of_int_power)
  then have "x < (2::real) ^ nat (bitlen \<lfloor>x\<rfloor>)"
    using floor_correct [of x] by linarith
  then have hi: "x < 2 powi (bitlen \<lfloor>x\<rfloor>)"
    using pos by (simp add: powi_nat)
  from lo hi True show ?thesis by (simp add: binade_def)
next
  case False
  with assms have x: "0 < x" "x < 1" by simp_all
  then have inv: "1 < 1 / x" by simp
  let ?c = "\<lceil>1 / x\<rceil> - 1"
  from inv have c: "0 < ?c" by linarith
  from bitlen_bounds [OF c] have
    b: "2 ^ nat (bitlen ?c - 1) \<le> ?c" "?c < 2 ^ nat (bitlen ?c)" by auto
  from c have pos: "1 \<le> bitlen ?c"
    by (metis bitlen_eq_zero_iff bitlen_nonneg not_less add_0 zless_imp_add1_zle order.order_iff_strict)
  have "real_of_int ?c < 1 / x" by linarith
  moreover have "(2::real) ^ nat (bitlen ?c - 1) \<le> of_int ?c"
    using b(1) by (metis of_int_le_iff of_int_numeral of_int_power)
  ultimately have "2 ^ nat (bitlen ?c - 1) < 1 / x" by linarith
  then have "x * 2 ^ nat (bitlen ?c - 1) < 1"
    using x(1) by (simp add: field_simps)
  then have hi: "x < 2 powi (- bitlen ?c + 1)"
  proof -
    have "(2::real) powi (- (bitlen ?c - 1)) = inverse (2 ^ nat (bitlen ?c - 1))"
      using pos by (intro powi_neg) simp
    moreover have "- (bitlen ?c - 1) = - bitlen ?c + 1" by simp
    ultimately have eq: "(2::real) powi (- bitlen ?c + 1) = inverse (2 ^ nat (bitlen ?c - 1))"
      by simp
    from \<open>x * 2 ^ nat (bitlen ?c - 1) < 1\<close> have "x < inverse (2 ^ nat (bitlen ?c - 1))"
      by (simp add: field_simps)
    then show ?thesis unfolding eq .
  qed
  have "?c + 1 \<le> 2 ^ nat (bitlen ?c)" using b(2) by simp
  then have "of_int (?c + 1) \<le> (2::real) ^ nat (bitlen ?c)"
    by (metis of_int_le_iff of_int_numeral of_int_power)
  moreover have "1 / x \<le> real_of_int (?c + 1)" by simp
  ultimately have "1 / x \<le> 2 ^ nat (bitlen ?c)" by linarith
  then have "1 \<le> x * 2 ^ nat (bitlen ?c)" using x(1) by (simp add: field_simps)
  then have lo: "2 powi (- bitlen ?c) \<le> x"
  proof -
    have eq: "(2::real) powi (- bitlen ?c) = inverse (2 ^ nat (bitlen ?c))"
      using pos by (intro powi_neg) simp
    from \<open>1 \<le> x * 2 ^ nat (bitlen ?c)\<close> have "inverse (2 ^ nat (bitlen ?c)) \<le> x"
      by (simp add: field_simps)
    then show ?thesis unfolding eq .
  qed
  from lo hi False show ?thesis by (simp add: binade_def)
qed

lemma binade_mono:
  assumes "0 < x" "x \<le> y"
  shows "binade x \<le> binade y"
proof (rule ccontr)
  assume "\<not> binade x \<le> binade y"
  then have "binade y + 1 \<le> binade x" by simp
  then have "(2::real) powi (binade y + 1) \<le> 2 powi binade x"
    by (intro power_int_increasing) simp_all
  moreover from assms binade_bounds [of y] have "y < 2 powi (binade y + 1)" by simp
  moreover from assms binade_bounds [of x] have "2 powi binade x \<le> x" by simp
  ultimately show False using assms(2) by linarith
qed

lemma round_even_cases: "round_even m = \<lfloor>m\<rfloor> \<or> round_even m = \<lfloor>m\<rfloor> + 1"
  by (simp add: round_even_def Let_def)

lemma round_even_of_int [simp]: "round_even (of_int n) = n"
  by (simp add: round_even_def)

lemma round_even_mono:
  assumes "x \<le> y"
  shows "round_even x \<le> round_even y"
proof (cases "\<lfloor>x\<rfloor> = \<lfloor>y\<rfloor>")
  case True
  then have "x - of_int \<lfloor>x\<rfloor> \<le> y - of_int \<lfloor>y\<rfloor>" using assms by simp
  with True show ?thesis by (auto simp: round_even_def Let_def)
next
  case False
  with floor_mono [OF assms] have "\<lfloor>x\<rfloor> < \<lfloor>y\<rfloor>" by linarith
  moreover have "round_even x \<le> \<lfloor>x\<rfloor> + 1" using round_even_cases [of x] by auto
  moreover have "\<lfloor>y\<rfloor> \<le> round_even y" using round_even_cases [of y] by auto
  ultimately show ?thesis by linarith
qed

lemma round_even_minus: "round_even (- m) = - round_even m"
proof (cases "m = of_int \<lfloor>m\<rfloor>")
  case True
  then obtain n where "m = of_int n" ..
  then show ?thesis by (metis of_int_minus round_even_of_int)
next
  case False
  then have c: "\<lceil>m\<rceil> = \<lfloor>m\<rfloor> + 1"
    by (metis ceiling_altdef of_int_floor_cancel)
  have f: "\<lfloor>- m\<rfloor> = - \<lfloor>m\<rfloor> - 1" using c by (simp add: ceiling_def)
  have d: "0 < m - of_int \<lfloor>m\<rfloor>" using False of_int_floor_le [of m] by linarith
  show ?thesis
    using d by (auto simp: round_even_def Let_def f)
qed

lemma ulp_exponent_minus [simp]: "ulp_exponent (- x) = ulp_exponent x"
  by (simp add: ulp_exponent_def)

lemma round_double_minus: "round_double (- x) = - round_double x"
  by (simp add: round_double_def round_even_minus)

lemma round_double_nonneg:
  assumes "0 \<le> x"
  shows "0 \<le> round_double x"
proof (cases "x = 0")
  case True
  then show ?thesis by (simp add: round_double_def)
next
  case False
  let ?q = "ulp_exponent x"
  have "0 \<le> x / 2 powi ?q" using assms by simp
  then have "round_even 0 \<le> round_even (x / 2 powi ?q)" by (rule round_even_mono)
  then have "0 \<le> round_even (x / 2 powi ?q)"
    using round_even_of_int [of 0] by simp
  with False show ?thesis by (simp add: round_double_def)
qed

lemma round_double_pos_mono:
  assumes "0 < x" "x \<le> y"
  shows "round_double x \<le> round_double y"
proof -
  let ?qx = "ulp_exponent x" and ?qy = "ulp_exponent y"
  from assms have y: "0 < y" by simp
  have rx: "round_double x = of_int (round_even (x / 2 powi ?qx)) * 2 powi ?qx"
    using assms(1) by (simp add: round_double_def)
  have ry: "round_double y = of_int (round_even (y / 2 powi ?qy)) * 2 powi ?qy"
    using y by (simp add: round_double_def)
  have bm: "binade x \<le> binade y" using assms by (rule binade_mono)
  then have qle: "?qx \<le> ?qy" using assms(1) y by (simp add: ulp_exponent_def)
  show ?thesis
  proof (cases "?qx = ?qy")
    case True
    have "x / 2 powi ?qy \<le> y / 2 powi ?qy"
      using assms(2) by (simp add: divide_right_mono)
    then have "round_even (x / 2 powi ?qy) \<le> round_even (y / 2 powi ?qy)"
      by (rule round_even_mono)
    then have "real_of_int (round_even (x / 2 powi ?qy)) * 2 powi ?qy
        \<le> real_of_int (round_even (y / 2 powi ?qy)) * 2 powi ?qy"
      by (simp add: mult_right_mono)
    with rx ry True show ?thesis by simp
  next
    case False
    with qle have lt: "?qx < ?qy" by simp
    have "binade x + 1 \<le> ?qx + 53" using assms(1) by (simp add: ulp_exponent_def)
    then have "(2::real) powi (binade x + 1) \<le> 2 powi (?qx + 53)"
      by (intro power_int_increasing) simp_all
    with binade_bounds [OF assms(1)] have "x < 2 powi (?qx + 53)" by linarith
    then have "x / 2 powi ?qx < 2 ^ 53"
      by (simp add: power_int_add field_simps)
    then have "x / 2 powi ?qx \<le> of_int (2 ^ 53)" by simp
    then have "round_even (x / 2 powi ?qx) \<le> round_even (of_int (2 ^ 53))"
      by (rule round_even_mono)
    then have "round_even (x / 2 powi ?qx) \<le> 2 ^ 53"
      by (simp only: round_even_of_int)
    then have "real_of_int (round_even (x / 2 powi ?qx)) \<le> 2 ^ 53"
      by (metis of_int_le_iff of_int_numeral of_int_power)
    then have "round_double x \<le> 2 ^ 53 * 2 powi ?qx"
      unfolding rx by (simp add: mult_right_mono)
    then have ux: "round_double x \<le> 2 powi (?qx + 53)"
      by (simp add: power_int_add mult.commute)
    from lt assms(1) y have by_normal: "?qy + 52 = binade y"
      by (simp add: ulp_exponent_def max_def split: if_splits)
    with binade_bounds [OF y] have "2 powi (?qy + 52) \<le> y" by simp
    then have "2 ^ 52 \<le> y / 2 powi ?qy"
      by (simp add: power_int_add field_simps)
    then have "of_int (2 ^ 52) \<le> y / 2 powi ?qy" by simp
    then have "round_even (of_int (2 ^ 52)) \<le> round_even (y / 2 powi ?qy)"
      by (rule round_even_mono)
    then have "2 ^ 52 \<le> round_even (y / 2 powi ?qy)"
      by (simp only: round_even_of_int)
    then have "2 ^ 52 \<le> real_of_int (round_even (y / 2 powi ?qy))"
      by (metis of_int_le_iff of_int_numeral of_int_power)
    then have "2 ^ 52 * 2 powi ?qy \<le> round_double y"
      unfolding ry by (simp add: mult_right_mono)
    then have ly: "2 powi (?qy + 52) \<le> round_double y"
      by (simp add: power_int_add mult.commute)
    from lt have "?qx + 53 \<le> ?qy + 52" by simp
    then have "(2::real) powi (?qx + 53) \<le> 2 powi (?qy + 52)"
      by (intro power_int_increasing) simp_all
    with ux ly show ?thesis by linarith
  qed
qed

lemma round_double_mono:
  assumes "x \<le> y"
  shows "round_double x \<le> round_double y"
proof -
  consider "0 < x" | "x \<le> 0" "0 \<le> y" | "y < 0" by linarith
  then show ?thesis
  proof cases
    case 1
    from this assms show ?thesis by (rule round_double_pos_mono)
  next
    case 2
    from 2(1) have "0 \<le> round_double (- x)" by (intro round_double_nonneg) simp
    then have "round_double x \<le> 0" by (simp add: round_double_minus)
    moreover from 2(2) have "0 \<le> round_double y" by (rule round_double_nonneg)
    ultimately show ?thesis by linarith
  next
    case 3
    with assms have "0 < - y" "- y \<le> - x" by simp_all
    then have "round_double (- y) \<le> round_double (- x)" by (rule round_double_pos_mono)
    then show ?thesis by (simp add: round_double_minus)
  qed
qed

text \<open>
  The rounding computes the doubles one knows: a tenth, a third of a thousand, and the
  tie between two subnormal neighbours, which goes to the even one.
\<close>

lemmas double_defs = round_double_def ulp_exponent_def binade_def round_even_def bitlen_def
  compute_floorlog Let_def

lemma round_double_tenth: "round_double (1 / 10) = 3602879701896397 / 36028797018963968"
  by (simp add: double_defs)

lemma round_double_third: "round_double (1000 / 3) = 5864062014805333 / 17592186044416"
  by (simp add: double_defs)

lemma round_double_int: "round_double 150000 = 150000"
  by (simp add: double_defs)

lemma overflow_threshold_pos: "0 < overflow_threshold"
  by (simp add: overflow_threshold_def)

lemma double_of_mono: "x \<le> y \<Longrightarrow> num_le (double_of x) (double_of y)"
  using round_double_mono [of x y] overflow_threshold_pos
  by (auto simp: double_of_def Let_def)

lemma double_of_cases:
  "(\<exists>y. double_of x = Num y) \<or> double_of x = PosInf \<or> double_of x = NegInf"
  by (simp add: double_of_def Let_def)

lemma mul_numbers_mono:
  assumes "0 < p" and "x \<le> y"
  shows "num_le (mul_numbers (Num p) (double_of x)) (mul_numbers (Num p) (double_of y))"
proof -
  have le: "num_le (double_of x) (double_of y)" using assms(2) by (rule double_of_mono)
  have prod: "\<And>a b. a \<le> b \<Longrightarrow> num_le (double_of (p * a)) (double_of (p * b))"
    using assms(1) by (intro double_of_mono) simp
  have top: "\<And>a. num_le (double_of a) PosInf"
    using double_of_cases by (metis num_le.simps(2,5,6))
  have bot: "\<And>a. num_le NegInf (double_of a)"
    using double_of_cases by (metis num_le.simps(3,4,5))
  from double_of_cases [of x] double_of_cases [of y] le assms(1) show ?thesis
    by (auto simp: prod top bot)
qed

section \<open>The GDP estimator\<close>

text \<open>
  The draw: \<^verbatim>\<open>Math.random()\<close> returns a double \<open>u\<close> with \<open>0 \<le> u < 1\<close>, so at
  most \<open>1 - 2^(-53)\<close>, the largest double below 1. The product with 1001 then rounds to
  a double below 1001.
\<close>

lemma round_double_largest_draw:
  "round_double ((1 - 1 / 2 ^ 53) * (2000 - 1000 + 1)) = 1001 - 1 / 2 ^ 43"
  by (simp add: double_defs)

lemma randomNumber_range:
  assumes "0 \<le> u" and "u \<le> 1 - 1 / 2 ^ 53"
  shows "1000 \<le> randomNumber u \<and> randomNumber u \<le> 2000"
proof -
  let ?x = "u * (2000 - 1000 + 1)"
  have "0 \<le> ?x" using assms(1) by simp
  then have "0 \<le> round_double ?x" by (rule round_double_nonneg)
  then have lo: "0 \<le> \<lfloor>round_double ?x\<rfloor>" by simp
  have "?x \<le> (1 - 1 / 2 ^ 53) * (2000 - 1000 + 1)" using assms(2) by simp
  then have "round_double ?x \<le> round_double ((1 - 1 / 2 ^ 53) * (2000 - 1000 + 1))"
    by (rule round_double_mono)
  then have "round_double ?x \<le> 1001 - 1 / 2 ^ 43"
    by (simp only: round_double_largest_draw)
  then have "round_double ?x < 1001" by simp
  then have "\<lfloor>round_double ?x\<rfloor> < 1001" by (simp add: floor_less_iff)
  with lo show ?thesis by (simp add: randomNumber_def)
qed

lemma estimate_gdp_falsy_code:
  "\<not> truthy code \<Longrightarrow> estimate_gdp eng pop code table u = Inr (Num 0)"
  by (simp add: estimate_gdp_def exchange_rate_of_def estimated_gdp_of_def)

lemma inherited_member_none:
  "c \<notin> set object_prototype_members \<Longrightarrow> inherited_member c = Undefined"
  by (auto simp: inherited_member_def object_prototype_members_def)

lemma estimate_gdp_no_rate:
  assumes "c \<noteq> []"
    and "(map_of rates c = None \<and> c \<notin> set object_prototype_members) \<or>
         map_of rates c = Some Null \<or> map_of rates c = Some (Num 0)"
  shows "estimate_gdp eng pop (Str c) (Obj rates) u = Inr Null"
  using assms
  by (auto simp: estimate_gdp_def exchange_rate_of_def estimated_gdp_of_def js_get_computed_def
      nullish_def inherited_member_none)

lemma estimate_gdp_rate:
  assumes "c \<noteq> []" and "map_of rates c = Some (Num rate)" and "rate \<noteq> 0"
  shows "estimate_gdp eng pop (Str c) (Obj rates) u =
         js_mul eng pop (div_numbers (Num (of_int (randomNumber u))) (Num rate))"
  using assms
  by (simp add: estimate_gdp_def exchange_rate_of_def estimated_gdp_of_def js_get_computed_def
      nullish_def js_div_def)

lemma js_mul_numbers:
  "js_mul eng (Num p) (double_of x) = Inr (mul_numbers (Num p) (double_of x))"
  using double_of_cases [of x] by (auto simp: js_mul_def)

text \<open>
  The bounds of the specification hold of the rounded operations: with a positive
  population and a positive rate, the quotient and then the product grow with \<open>r\<close>.
\<close>

lemma gdp_bounds:
  assumes "0 < p" "0 < rate" "1000 \<le> r" "r \<le> 2000"
  shows "num_le (mul_numbers (Num p) (div_numbers (Num 1000) (Num rate)))
           (mul_numbers (Num p) (div_numbers (Num (of_int r)) (Num rate))) \<and>
         num_le (mul_numbers (Num p) (div_numbers (Num (of_int r)) (Num rate)))
           (mul_numbers (Num p) (div_numbers (Num 2000) (Num rate)))"
proof -
  have "1000 / rate \<le> real_of_int r / rate" "real_of_int r / rate \<le> 2000 / rate"
    using assms by (simp_all add: divide_right_mono)
  then have
    "num_le (mul_numbers (Num p) (double_of (1000 / rate)))
       (mul_numbers (Num p) (double_of (real_of_int r / rate)))"
    "num_le (mul_numbers (Num p) (double_of (real_of_int r / rate)))
       (mul_numbers (Num p) (double_of (2000 / rate)))"
    using assms(1) by (simp_all add: mul_numbers_mono)
  then show ?thesis using assms(2) by simp
qed

text \<open>
  A currency code of three letters, as the specification has them, is a non-empty
  string and names nothing a rate table inherits.
\<close>

lemma three_letter_code:
  "length c = 3 \<Longrightarrow> c \<noteq> [] \<and> c \<notin> set object_prototype_members"
  by (auto simp: object_prototype_members_def)

text \<open>
  Outside these codes the two tests of the estimator are tests for truthiness, and the
  lookup sees what the table inherits: the empty code gives 0 where a rate is missing,
  a rate of 0 gives \<^verbatim>\<open>null\<close>, and the code \<^verbatim>\<open>constructor\<close> finds a function for its
  rate in the empty table, with an estimate that is not a number.
\<close>

lemma estimate_gdp_empty_code:
  "currency_code_of eng (Arr [Obj [(''code'', Str '''')]]) = Str '''' \<and>
   estimate_gdp eng (Num 1000) (Str '''') (Obj []) 0 = Inr (Num 0)"
  by (simp add: currency_code_of_def nullish_def estimate_gdp_def exchange_rate_of_def
      estimated_gdp_of_def index_of_def is_digit_def digits_value_def digit_value_def)

lemma estimate_gdp_zero_rate:
  "estimate_gdp eng (Num 1000) (Str ''AAA'') (Obj [(''AAA'', Num 0)]) 0 = Inr Null"
  by (simp add: estimate_gdp_no_rate)

lemma exchange_rate_inherited:
  "exchange_rate_of eng (Obj []) (Str ''constructor'') = Inr (Fun ''Object'')"
  by (simp add: exchange_rate_of_def js_get_computed_def nullish_def inherited_member_def)

lemma estimate_gdp_inherited_rate:
  "estimate_gdp sample_engine (Num 1000) (Str ''constructor'') (Obj []) (1 / 2) = Inr NaN"
  by (simp add: estimate_gdp_def exchange_rate_of_def estimated_gdp_of_def js_get_computed_def
      nullish_def inherited_member_def js_div_def js_mul_def string_to_number_def is_digit_def
      sample_engine_def)

text \<open>The key of the lookup is converted to a property name; a string operand to a number.\<close>

lemma estimate_gdp_numeric_code:
  "estimate_gdp eng (Num 1000) (Num 840) (Obj [(''840'', Num 10)]) (1 / 2) = Inr (Num 150000)"
  by (simp add: estimate_gdp_def exchange_rate_of_def estimated_gdp_of_def js_get_computed_def
      nullish_def js_div_def js_mul_def number_to_string_def show_nat.simps randomNumber_def
      double_of_def overflow_threshold_def double_defs)

lemma estimate_gdp_string_population:
  "estimate_gdp eng (Str ''1000'') (Str ''AAA'') (Obj [(''AAA'', Num 10)]) (1 / 2) =
   Inr (Num 150000)"
  by (simp add: estimate_gdp_def exchange_rate_of_def estimated_gdp_of_def js_get_computed_def
      nullish_def js_div_def js_mul_def string_to_number_def is_digit_def digits_value_def
      digit_value_def randomNumber_def double_of_def overflow_threshold_def double_defs)

text \<open>
  Claim C1, amended. For every population, rate table (an object) and draw \<open>u\<close> of
  \<^verbatim>\<open>Math.random()\<close>:
  \<^item> when the currency code is \<^verbatim>\<open>null\<close>, the result is 0;
  \<^item> when the currency code is present (a non-empty string) and the rate is
    unavailable, \<^verbatim>\<open>null\<close> in the table or missing from the table and from what the
    table inherits, as it is for every code of three letters, the result is
    \<^verbatim>\<open>null\<close>;
  \<^item> when both are present, the rate a number other than 0, the result is
    \<open>population * (r / rate)\<close> for an integer \<open>r\<close> with \<open>1000 \<le> r \<le> 2000\<close>, the
    quotient and the product being the rounded operations of double arithmetic; and so,
    for a positive population and a positive rate, it is a number between
    \<open>population * (1000 / rate)\<close> and \<open>population * (2000 / rate)\<close>, computed by
    the same rounded operations (an overflowing product being infinite).
\<close>

theorem estimate_gdp_cases:
  "estimate_gdp eng pop Null table u = Inr (Num 0) \<and>
   (c \<noteq> [] \<and>
    ((map_of rates c = None \<and> c \<notin> set object_prototype_members) \<or>
     map_of rates c = Some Null) \<longrightarrow>
      estimate_gdp eng pop (Str c) (Obj rates) u = Inr Null) \<and>
   (c \<noteq> [] \<and> map_of rates c = Some (Num rate) \<and> rate \<noteq> 0 \<and>
    0 \<le> u \<and> u \<le> 1 - 1 / 2 ^ 53 \<longrightarrow>
      (\<exists>r. 1000 \<le> r \<and> r \<le> 2000 \<and>
         estimate_gdp eng pop (Str c) (Obj rates) u =
           js_mul eng pop (div_numbers (Num (of_int r)) (Num rate)) \<and>
         (0 < p \<and> 0 < rate \<longrightarrow>
            (\<exists>g. estimate_gdp eng (Num p) (Str c) (Obj rates) u = Inr g \<and>
               num_le (mul_numbers (Num p) (div_numbers (Num 1000) (Num rate))) g \<and>
               num_le g (mul_numbers (Num p) (div_numbers (Num 2000) (Num rate)))))))"
proof (intro conjI impI)
  show "estimate_gdp eng pop Null table u = Inr (Num 0)"
    by (simp add: estimate_gdp_falsy_code)
next
  assume "c \<noteq> [] \<and>
    ((map_of rates c = None \<and> c \<notin> set object_prototype_members) \<or>
     map_of rates c = Some Null)"
  then show "estimate_gdp eng pop (Str c) (Obj rates) u = Inr Null"
    using estimate_gdp_no_rate [of c rates eng pop u] by blast
next
  assume a: "c \<noteq> [] \<and> map_of rates c = Some (Num rate) \<and> rate \<noteq> 0 \<and>
    0 \<le> u \<and> u \<le> 1 - 1 / 2 ^ 53"
  let ?r = "randomNumber u"
  let ?g = "mul_numbers (Num p) (div_numbers (Num (of_int ?r)) (Num rate))"
  from a have r: "1000 \<le> ?r" "?r \<le> 2000" using randomNumber_range [of u] by simp_all
  from a have eq: "\<And>v. estimate_gdp eng v (Str c) (Obj rates) u =
      js_mul eng v (div_numbers (Num (of_int ?r)) (Num rate))"
    by (simp add: estimate_gdp_rate)
  have "0 < p \<and> 0 < rate \<longrightarrow>
      (\<exists>g. estimate_gdp eng (Num p) (Str c) (Obj rates) u = Inr g \<and>
         num_le (mul_numbers (Num p) (div_numbers (Num 1000) (Num rate))) g \<and>
         num_le g (mul_numbers (Num p) (div_numbers (Num 2000) (Num rate))))"
  proof
    assume pos: "0 < p \<and> 0 < rate"
    then have "estimate_gdp eng (Num p) (Str c) (Obj rates) u = Inr ?g"
      using eq [of "Num p"] js_mul_numbers [of eng p "real_of_int ?r / rate"] by simp
    moreover have
      "num_le (mul_numbers (Num p) (div_numbers (Num 1000) (Num rate))) ?g \<and>
       num_le ?g (mul_numbers (Num p) (div_numbers (Num 2000) (Num rate)))"
      using pos r by (intro gdp_bounds) simp_all
    ultimately show "\<exists>g. estimate_gdp eng (Num p) (Str c) (Obj rates) u = Inr g \<and>
         num_le (mul_numbers (Num p) (div_numbers (Num 1000) (Num rate))) g \<and>
         num_le g (mul_numbers (Num p) (div_numbers (Num 2000) (Num rate)))"
      by blast
  qed
  with r eq [of pop] show "\<exists>r. 1000 \<le> r \<and> r \<le> 2000 \<and>
         estimate_gdp eng pop (Str c) (Obj rates) u =
           js_mul eng pop (div_numbers (Num (of_int r)) (Num rate)) \<and>
         (0 < p \<and> 0 < rate \<longrightarrow>
            (\<exists>g. estimate_gdp eng (Num p) (Str c) (Obj rates) u = Inr g \<and>
               num_le (mul_numbers (Num p) (div_numbers (Num 1000) (Num rate))) g \<and>
               num_le g (mul_numbers (Num p) (div_numbers (Num 2000) (Num rate)))))"
    by blast
qed

theorem estimate_gdp_cases_witness:
  "estimate_gdp sample_engine (Num 1000) Null (Obj [(''AAA'', Num 10)]) (1 / 2) = Inr (Num 0) \<and>
   estimate_gdp sample_engine (Num 1000) (Str ''XYZ'') (Obj [(''AAA'', Num 10)]) (1 / 2) = Inr Null \<and>
   (\<exists>g. estimate_gdp sample_engine (Num 1000) (Str ''AAA'') (Obj [(''AAA'', Num 10)]) (1 / 2) = Inr g \<and>
      num_le (Num 100000) g \<and> num_le g (Num 200000))"
proof -
  have lo: "mul_numbers (Num 1000) (double_of 100) = Num 100000"
    by (simp add: double_of_def overflow_threshold_def double_defs)
  have hi: "mul_numbers (Num 1000) (double_of 200) = Num 200000"
    by (simp add: double_of_def overflow_threshold_def double_defs)
  have members: "''XYZ'' \<notin> set object_prototype_members"
    by (simp add: object_prototype_members_def)
  show ?thesis
    using estimate_gdp_cases [of sample_engine "Num 1000" "Obj [(''AAA'', Num 10)]" "1 / 2"
        "''XYZ''" "[(''AAA'', Num 10)]" 10 1000]
      estimate_gdp_cases [of sample_engine "Num 1000" "Obj [(''AAA'', Num 10)]" "1 / 2"
        "''AAA''" "[(''AAA'', Num 10)]" 10 1000]
    by (auto simp: lo hi members)
qed

text \<open>
  Claim C1 as stated fails on the range: the result is the product of two rounded
  operations and can miss the interval from \<open>population * 1000 / rate\<close> to
  \<open>population * 2000 / rate\<close>. With a population of 5, a rate of 3 and the draw 1/2048
  (\<open>r = 1000\<close>) the quotient \<open>1000 / 3\<close> rounds down and the result is
  1666.6666666666665 (the fraction below), less than \<open>5 * 1000 / 3\<close>, whether
  that bound is taken exactly or computed in doubles.
\<close>

theorem estimate_gdp_rounding_counterexample:
  "estimate_gdp sample_engine (Num 5) (Str ''AAA'') (Obj [(''AAA'', Num 3)]) (1 / 2048) =
     Inr (Num (3665038759253333 / 2199023255552)) \<and>
   (3665038759253333 / 2199023255552 :: real) < 5 * 1000 / 3 \<and>
   \<not> num_le (div_numbers (mul_numbers (Num 5) (Num 1000)) (Num 3))
       (Num (3665038759253333 / 2199023255552))"
  by (simp add: estimate_gdp_def exchange_rate_of_def estimated_gdp_of_def js_get_computed_def
      nullish_def js_div_def js_mul_def randomNumber_def double_of_def overflow_threshold_def
      double_defs)

text \<open>
  At the other end, a population of 3, a rate of 9 and the largest draw (\<open>r = 2000\<close>)
  give 666.6666666666667, more than \<open>3 * 2000 / 9\<close>.
\<close>

lemma estimate_gdp_rounds_above:
  "estimate_gdp sample_engine (Num 3) (Str ''AAA'') (Obj [(''AAA'', Num 9)]) (1 - 1 / 2 ^ 53) =
     Inr (Num (2932031007402667 / 4398046511104)) \<and>
   (3 * 2000 / 9 :: real) < 2932031007402667 / 4398046511104"
  by (simp add: estimate_gdp_def exchange_rate_of_def estimated_gdp_of_def js_get_computed_def
      nullish_def js_div_def js_mul_def randomNumber_def double_of_def overflow_threshold_def
      double_defs)

section \<open>The upsert\<close>

lemma upsert_names:
  "map name (upsert new rows) =
     (if name new \<in> set (map name rows) then map name rows else map name rows @ [name new])"
  by (induction rows) (auto simp: on_duplicate_key_update_def)

lemma upsert_distinct:
  "distinct (map name rows) \<Longrightarrow> distinct (map name (upsert new rows))"
  by (simp add: upsert_names)

lemma upsert_keeps_names: "set (map name rows) \<subseteq> set (map name (upsert new rows))"
  by (auto simp: upsert_names)

lemma upsert_find:
  "find (\<lambda>r. name r = name new) rows = Some old \<Longrightarrow>
   find (\<lambda>r. name r = name new) (upsert new rows) = Some (on_duplicate_key_update old new)"
  by (induction rows) (auto simp: on_duplicate_key_update_def split: if_splits)

lemma execute_upsert_Inr:
  "execute_upsert fault now p rows = Inr rows' \<Longrightarrow>
   \<exists>gdp. sql_decimal (p_estimated_gdp p) = Some gdp \<and> rows' = upsert (inserted_row now p gdp) rows"
  by (auto simp: execute_upsert_def split: if_splits option.splits)

text \<open>
  Claim C4. When the upsert succeeds and the table has a row with the name that is
  bound, the row with that name afterwards holds the bound value in each of capital,
  region, population, currency_code, exchange_rate, estimated_gdp, flag_url and
  last_refreshed_at, while created_at and the name are those of the old row; no row is
  added.
\<close>

theorem upsert_overwrites:
  assumes "execute_upsert fault now p rows = Inr rows'"
    and "find (\<lambda>r. name r = p_name p) rows = Some old"
  shows "\<exists>new. find (\<lambda>r. name r = p_name p) rows' = Some new \<and>
           capital new = p_capital p \<and>
           region new = p_region p \<and>
           population new = p_population p \<and>
           currency_code new = p_currency_code p \<and>
           exchange_rate new = p_exchange_rate p \<and>
           sql_decimal (p_estimated_gdp p) = Some (estimated_gdp new) \<and>
           flag_url new = p_flag_url p \<and>
           last_refreshed_at new = p_last_refreshed_at p \<and>
           created_at new = created_at old \<and>
           name new = name old \<and>
           length rows' = length rows"
proof -
  from execute_upsert_Inr [OF assms(1)] obtain gdp where
    gdp: "sql_decimal (p_estimated_gdp p) = Some gdp"
    and rows': "rows' = upsert (inserted_row now p gdp) rows"
    by blast
  let ?ins = "inserted_row now p gdp"
  have nm: "name ?ins = p_name p" by (simp add: inserted_row_def)
  with assms(2) have "find (\<lambda>r. name r = name ?ins) rows = Some old" by simp
  from upsert_find [OF this] nm rows'
  have f: "find (\<lambda>r. name r = p_name p) rows' = Some (on_duplicate_key_update old ?ins)"
    by simp
  from assms(2) have "name old \<in> set (map name rows)" "name old = p_name p"
    by (auto simp: find_Some_iff)
  then have len: "length rows' = length rows"
    using rows' nm upsert_names [of ?ins rows]
    by (metis length_map)
  show ?thesis
    using f gdp len by (simp add: on_duplicate_key_update_def inserted_row_def)
qed

theorem upsert_overwrites_witness:
  "execute_upsert False 8 france_params [row_B, france_old] = Inr [row_B, france_new] \<and>
   find (\<lambda>r. name r = p_name france_params) [row_B, france_old] = Some france_old \<and>
   (\<exists>new. find (\<lambda>r. name r = p_name france_params) [row_B, france_new] = Some new \<and>
           capital new = p_capital france_params \<and>
           region new = p_region france_params \<and>
           population new = p_population france_params \<and>
           currency_code new = p_currency_code france_params \<and>
           exchange_rate new = p_exchange_rate france_params \<and>
           sql_decimal (p_estimated_gdp france_params) = Some (estimated_gdp new) \<and>
           flag_url new = p_flag_url france_params \<and>
           last_refreshed_at new = p_last_refreshed_at france_params \<and>
           created_at new = created_at france_old \<and>
           name new = name france_old \<and>
           length [row_B, france_new] = length [row_B, france_old])"
proof -
  have run: "execute_upsert False 8 france_params [row_B, france_old] = Inr [row_B, france_new]"
    by (simp add: execute_upsert_def refused_by_driver_def inserted_row_def
        on_duplicate_key_update_def france_params_def france_old_def france_new_def row_B_def)
  have old: "find (\<lambda>r. name r = p_name france_params) [row_B, france_old] = Some france_old"
    by (simp add: france_params_def france_old_def row_B_def)
  from upsert_overwrites [OF run old] run old show ?thesis by blast
qed

section \<open>What every refresh run preserves\<close>

lemma process_country_Inr:
  "process_country e x i raw rows = Inr rows' \<Longrightarrow> \<exists>new. rows' = upsert new rows"
  by (auto simp: process_country_def Let_def split: sum.splits if_splits
      dest!: execute_upsert_Inr)

lemma for_each_country_preserves:
  assumes step: "\<And>new rows. P rows \<Longrightarrow> P (upsert new rows)"
  shows "P rows \<Longrightarrow> P (snd (for_each_country e x i cs rows))"
proof (induction cs arbitrary: i rows)
  case Nil
  then show ?case by simp
next
  case (Cons raw rest)
  show ?case
  proof (cases "process_country e x i raw rows")
    case (Inl err)
    with Cons.prems show ?thesis by simp
  next
    case (Inr rows')
    from process_country_Inr [OF Inr] obtain new where "rows' = upsert new rows" ..
    with Cons.prems step have "P rows'" by simp
    from Cons.IH [OF this] Inr show ?thesis by simp
  qed
qed

lemma refresh_countries:
  "countries (snd (refresh e w)) = countries w \<or>
   (\<exists>x cs. countries (snd (refresh e w)) = snd (for_each_country e x 0 cs (countries w)))"
  by (auto simp: refresh_def split: http_result.splits option.splits sum.splits prod.splits)
    (metis snd_conv)+

lemma postCountries_countries:
  "countries (snd (postCountries e w)) = countries (snd (refresh e w))"
  by (simp add: postCountries_def split: prod.splits option.splits)

lemma postCountries_preserves:
  assumes step: "\<And>new rows. P rows \<Longrightarrow> P (upsert new rows)"
    and "P (countries w)"
  shows "P (countries (snd (postCountries e w)))"
  using refresh_countries [of e w] for_each_country_preserves [of P, OF step] assms(2)
  by (auto simp: postCountries_countries)

lemma refresh_runs_preserves:
  assumes step: "\<And>new rows. P rows \<Longrightarrow> P (upsert new rows)"
  shows "P (countries w) \<Longrightarrow> P (countries (refresh_runs es w))"
proof (induction es arbitrary: w)
  case Nil
  then show ?case by (simp add: refresh_runs_def)
next
  case (Cons e es)
  from postCountries_preserves [of P, OF step Cons.prems]
  have "P (countries (snd (postCountries e w)))" .
  from Cons.IH [OF this] show ?case by (simp add: refresh_runs_def)
qed

lemmas run_defs =
  postCountries_def refresh_def js_get_def nullish_def process_country_def
  replaceUndefined.simps for_in_body.simps map_item.simps required_fields_def
  currency_code_of_def exchange_rate_of_def js_get_computed_def estimated_gdp_of_def
  randomNumber_def js_mul_def js_div_def execute_upsert_def refused_by_driver_def
  inserted_row_def on_duplicate_key_update_def generateSummaryImage_def top5_query_def
  order_by_gdp_desc_def index_of_def is_digit_def digits_value_def digit_value_def
  inherited_member_def object_prototype_members_def double_of_def overflow_threshold_def
  double_defs sample_engine_def

text \<open>
  A record that is \<^verbatim>\<open>undefined\<close>, as the one read at an index the fetched value has no
  property for, leaves the loop with a TypeError.
\<close>

lemma undefined_record_raises: "process_country e x i Undefined rows = Inl TypeError"
  by (simp add: process_country_def replaceUndefined.simps nullish_def)

text \<open>
  A record whose currency code names an inherited member binds the function it finds as
  the exchange rate, and the driver refuses the statement.
\<close>

lemma inherited_rate_is_refused:
  "process_country sample_env (Obj []) 0
     (Obj [(''name'', Str ''A''), (''population'', Num 1000),
           (''currencies'', Arr [Obj [(''code'', Str ''constructor'')]])]) [] =
   Inl TypeError"
  by (simp add: run_defs string_to_number_def sample_env_def)

lemma distinct_name_filter:
  "distinct (map name rows) \<Longrightarrow> length (filter (\<lambda>r. name r = n) rows) \<le> 1"
proof (induction rows)
  case Nil
  then show ?case by simp
next
  case (Cons a rows)
  show ?case
  proof (cases "name a = n")
    case True
    from Cons.prems have "name a \<notin> name ` set rows" by simp
    with True have "\<forall>r \<in> set rows. name r \<noteq> n" by (metis imageI)
    then have "filter (\<lambda>r. name r = n) rows = []" by (simp add: filter_empty_conv)
    with True show ?thesis by simp
  next
    case False
    with Cons show ?thesis by simp
  qed
qed

text \<open>
  Claim C5. From a table in which no two rows have the same name (the empty table is
  one), any sequence of refresh runs, whatever they fetch and wherever they fail, leaves
  a table in which no two rows have the same name: a lookup by name finds at most one
  row.
\<close>

theorem one_row_per_name:
  assumes "distinct (map name (countries w))"
  shows "distinct (map name (countries (refresh_runs es w))) \<and>
         length (filter (\<lambda>r. name r = n) (countries (refresh_runs es w))) \<le> 1"
proof -
  have d: "distinct (map name (countries (refresh_runs es w)))"
    using refresh_runs_preserves [of "\<lambda>rows. distinct (map name rows)" w es] assms
    by (simp add: upsert_distinct)
  from d distinct_name_filter [OF d, of n] show ?thesis by blast
qed

theorem one_row_per_name_witness:
  "distinct (map name (countries empty_world)) \<and>
   map name (countries (refresh_runs [sample_env, sample_env] empty_world)) = [Str ''A'', Str ''B''] \<and>
   length (filter (\<lambda>r. name r = Str ''A'')
     (countries (refresh_runs [sample_env, sample_env] empty_world))) \<le> 1"
proof -
  have d: "distinct (map name (countries empty_world))"
    by (simp add: empty_world_def)
  have "refresh_runs [sample_env, sample_env] empty_world =
      \<lparr>countries = [row_A, row_B],
       summary_file = Some \<lparr>total_countries = 2,
         top_countries = [(Str ''A'', Some 150000), (Str ''B'', Some 0)], updated_at = 9\<rparr>\<rparr>"
    by (simp add: refresh_runs_def run_defs sample_env_def empty_world_def row_A_def row_B_def)
  then have "map name (countries (refresh_runs [sample_env, sample_env] empty_world)) = [Str ''A'', Str ''B'']"
    by (simp add: row_A_def row_B_def)
  with d one_row_per_name [OF d, of "[sample_env, sample_env]" "Str ''A''"] show ?thesis
    by blast
qed

text \<open>
  Claim C7. A refresh run deletes no row: every name in the table before the run is in
  the table after it, whatever the run fetched and whether it succeeded or failed.
\<close>

theorem refresh_keeps_names:
  "set (map name (countries w)) \<subseteq> set (map name (countries (snd (postCountries e w))))"
proof
  fix n
  assume "n \<in> set (map name (countries w))"
  with postCountries_preserves [of "\<lambda>rows. n \<in> set (map name rows)" w e] upsert_keeps_names
  show "n \<in> set (map name (countries (snd (postCountries e w))))"
    by blast
qed

theorem refresh_keeps_names_witness:
  "set (map name [france_old]) \<subseteq>
   set (map name (countries (snd (postCountries sample_env \<lparr>countries = [france_old], summary_file = None\<rparr>)))) \<and>
   map name (countries (snd (postCountries sample_env \<lparr>countries = [france_old], summary_file = None\<rparr>)))
     = [Str ''France'', Str ''A'', Str ''B'']"
  using refresh_keeps_names [of "\<lparr>countries = [france_old], summary_file = None\<rparr>" sample_env]
  by (simp add: run_defs sample_env_def france_old_def)

section \<open>A failure in the loop\<close>

lemma for_each_country_append:
  "for_each_country e x i (xs @ ys) rows =
     (case for_each_country e x i xs rows of
        (None, rows') \<Rightarrow> for_each_country e x (i + length xs) ys rows'
      | (Some err, rows') \<Rightarrow> (Some err, rows'))"
  by (induction xs arbitrary: i rows) (auto split: sum.splits prod.splits option.splits)

lemma for_each_country_upserts:
  "for_each_country e x i cs rows = (None, rows') \<Longrightarrow>
   \<exists>news. length news = length cs \<and> rows' = foldl (\<lambda>rs new. upsert new rs) rows news"
proof (induction cs arbitrary: i rows)
  case Nil
  then show ?case by simp
next
  case (Cons raw rest)
  show ?case
  proof (cases "process_country e x i raw rows")
    case (Inl err)
    with Cons.prems show ?thesis by simp
  next
    case (Inr rows1)
    from process_country_Inr [OF Inr] obtain new where new: "rows1 = upsert new rows" ..
    from Cons.prems Inr have "for_each_country e x (Suc i) rest rows1 = (None, rows')"
      by simp
    from Cons.IH [OF this] obtain news where
      "length news = length rest" "rows' = foldl (\<lambda>rs new. upsert new rs) rows1 news"
      by blast
    with new have
      "length (new # news) = length (raw # rest) \<and>
       rows' = foldl (\<lambda>rs new. upsert new rs) rows (new # news)"
      by simp
    then show ?thesis by blast
  qed
qed

text \<open>
  Claim C8. The loop takes the records in source order, one statement each, with no
  transaction around them. When the fetch stage has passed, the records before position
  \<open>k\<close> have gone through (leaving the table \<open>committed\<close>) and record \<open>k\<close> fails, in
  its upsert or before it, the run answers 500 and leaves the table at \<open>committed\<close>:
  the \<open>k\<close> upserts made before the failure stay (no rollback), nothing is done for
  the records after \<open>k\<close>, and the summary file is not touched.
\<close>

theorem failure_keeps_prefix:
  assumes "\<not> create_fault e"
    and "countries_fetch e = HttpResponse status1 (Some countriesData)"
    and "rates_fetch e = HttpResponse status2 (Some ratesBody)"
    and "js_get (js_engine e) ratesBody ''rates'' = Inr exchangeRateData"
    and "records_of (js_engine e) countriesData = Inr records"
    and "k < length records"
    and "for_each_country e exchangeRateData 0 (take k records) (countries w) = (None, committed)"
    and "process_country e exchangeRateData k (records ! k) committed = Inl err"
  shows "postCountries e w =
           ((500, ErrorMessage ''Failed to fetch country data''), w\<lparr>countries := committed\<rparr>) \<and>
         (\<exists>news. length news = k \<and>
            committed = foldl (\<lambda>rs new. upsert new rs) (countries w) news)"
proof -
  have split: "records = take k records @ (records ! k) # drop (Suc k) records"
    using assms(6) by (simp add: id_take_nth_drop)
  have "for_each_country e exchangeRateData 0 records (countries w) =
        for_each_country e exchangeRateData k ((records ! k) # drop (Suc k) records) committed"
    using assms(6,7)
    by (subst split, subst for_each_country_append) simp
  also have "\<dots> = (Some err, committed)"
    using assms(8) by simp
  finally have "refresh e w = (Some err, w\<lparr>countries := committed\<rparr>)"
    using assms(1-5) by (simp add: refresh_def)
  then have "postCountries e w =
           ((500, ErrorMessage ''Failed to fetch country data''), w\<lparr>countries := committed\<rparr>)"
    by (simp add: postCountries_def)
  moreover from for_each_country_upserts [OF assms(7)] assms(6)
  have "\<exists>news. length news = k \<and>
            committed = foldl (\<lambda>rs new. upsert new rs) (countries w) news"
    by simp
  ultimately show ?thesis by blast
qed

theorem failure_keeps_prefix_witness:
  "postCountries (sample_env\<lparr>upsert_fault := (\<lambda>i. i = 1)\<rparr>) empty_world =
     ((500, ErrorMessage ''Failed to fetch country data''), empty_world\<lparr>countries := [row_A]\<rparr>)"
proof -
  let ?e = "sample_env\<lparr>upsert_fault := (\<lambda>i. i = 1)\<rparr>"
  let ?A = "Obj [(''name'', Str ''A''), (''population'', Num 1000),
              (''currencies'', Arr [Obj [(''code'', Str ''AAA'')]])]"
  let ?B = "Obj [(''name'', Str ''B''), (''population'', Num 5)]"
  have 1: "\<not> create_fault ?e" by (simp add: sample_env_def)
  have 2: "countries_fetch ?e = HttpResponse 200 (Some (Arr [?A, ?B]))" by (simp add: sample_env_def)
  have 3: "rates_fetch ?e = HttpResponse 200 (Some (Obj [(''rates'', Obj [(''AAA'', Num 10)])]))"
    by (simp add: sample_env_def)
  have 4: "js_get (js_engine ?e) (Obj [(''rates'', Obj [(''AAA'', Num 10)])]) ''rates'' =
      Inr (Obj [(''AAA'', Num 10)])"
    by (simp add: js_get_def nullish_def)
  have 5: "records_of (js_engine ?e) (Arr [?A, ?B]) = Inr [?A, ?B]" by simp
  have 6: "1 < length [?A, ?B]" by simp
  have 7: "for_each_country ?e (Obj [(''AAA'', Num 10)]) 0 (take 1 [?A, ?B]) (countries empty_world)
            = (None, [row_A])"
    by (simp add: run_defs sample_env_def empty_world_def row_A_def)
  have 8: "process_country ?e (Obj [(''AAA'', Num 10)]) 1 ([?A, ?B] ! 1) [row_A] = Inl DbError"
    by (simp add: run_defs sample_env_def)
  from failure_keeps_prefix [OF 1 2 3 4 5 6 7 8] show ?thesis by blast
qed

section \<open>A failed fetch of the country directory\<close>

text \<open>
  When \<^verbatim>\<open>fetch\<close> itself rejects, the run stops before any statement but the
  \<^verbatim>\<open>CREATE TABLE\<close>, with the 500 of the handler's one \<^verbatim>\<open>catch\<close>.
\<close>

lemma network_error_aborts:
  assumes "\<not> create_fault e" and "countries_fetch e = NetworkError"
  shows "postCountries e w = ((500, ErrorMessage ''Failed to fetch country data''), w)"
  using assms by (simp add: postCountries_def refresh_def)

text \<open>
  The second version of the handler stops on a response that is not 2xx as well, and
  answers 502 for both.
\<close>

lemma checked_handler_aborts:
  assumes "\<not> create_fault e"
    and "countries_fetch e = NetworkError \<or>
         (\<exists>status body. countries_fetch e = HttpResponse status body \<and> \<not> response_ok status)"
  shows "postCountries_checked e w =
           ((502, ErrorMessage ''Failed to fetch countries data from external API''), w)"
  using assms by (auto simp: postCountries_checked_def)

text \<open>
  Claim C3 asks that a failed fetch of the country directory, a transport error or a
  response that is not 2xx, writes no row and shows the caller a failure. The handler of
  \<^verbatim>\<open>controller.js\<close> never looks at the status of the response. Here the directory
  answers 404 with the body \<^verbatim>\<open>{"status": 404, "message": "Not Found"}\<close>: the body
  parses, it has no length, the loop does nothing, the summary is drawn again and the
  caller receives 201 and "data refreshed".
\<close>

theorem non_2xx_response_reports_success:
  "postCountries
     (sample_env\<lparr>countries_fetch :=
        HttpResponse 404 (Some (Obj [(''status'', Num 404), (''message'', Str ''Not Found'')]))\<rparr>)
     empty_world =
   ((201, Message ''data refreshed''),
    \<lparr>countries = [],
     summary_file = Some \<lparr>total_countries = 0, top_countries = [], updated_at = 9\<rparr>\<rparr>)"
  by (simp add: run_defs iterations_def indexed_records_def sample_env_def empty_world_def)

text \<open>
  With the same status and a body that is a list of countries, the rows are written too.
\<close>

lemma non_2xx_response_writes_rows:
  "postCountries
     (sample_env\<lparr>countries_fetch :=
        HttpResponse 503 (Some (Arr [Obj [(''name'', Str ''B''), (''population'', Num 5)]]))\<rparr>)
     empty_world =
   ((201, Message ''data refreshed''),
    \<lparr>countries = [row_B],
     summary_file = Some \<lparr>total_countries = 1, top_countries = [(Str ''B'', Some 0)],
       updated_at = 9\<rparr>\<rparr>)"
  by (simp add: run_defs sample_env_def empty_world_def row_B_def)

section \<open>Ordering by GDP\<close>

lemma gdp_desc_total: "gdp_desc a b \<or> gdp_desc b a"
  by (cases a; cases b) auto

lemma gdp_desc_trans: "gdp_desc a b \<Longrightarrow> gdp_desc b c \<Longrightarrow> gdp_desc a c"
  by (cases a; cases b; cases c) auto

lemma set_insert_desc: "set (insert_desc r rs) = insert r (set rs)"
  by (induction rs) auto

lemma length_insert_desc: "length (insert_desc r rs) = Suc (length rs)"
  by (induction rs) auto

lemma sorted_insert_desc:
  "sorted_wrt (\<lambda>a b. gdp_desc (estimated_gdp a) (estimated_gdp b)) rs \<Longrightarrow>
   sorted_wrt (\<lambda>a b. gdp_desc (estimated_gdp a) (estimated_gdp b)) (insert_desc r rs)"
proof (induction rs)
  case Nil
  then show ?case by simp
next
  case (Cons s ss)
  show ?case
  proof (cases "gdp_desc (estimated_gdp s) (estimated_gdp r)")
    case True
    with Cons show ?thesis by (auto simp: set_insert_desc)
  next
    case False
    then have rs: "gdp_desc (estimated_gdp r) (estimated_gdp s)"
      using gdp_desc_total by blast
    then have "\<forall>t \<in> set ss. gdp_desc (estimated_gdp r) (estimated_gdp t)"
      using Cons.prems gdp_desc_trans by auto
    with False rs Cons.prems show ?thesis by simp
  qed
qed

lemma order_by_gdp_desc_sorted:
  "sorted_wrt (\<lambda>a b. gdp_desc (estimated_gdp a) (estimated_gdp b)) (order_by_gdp_desc rows)"
  unfolding order_by_gdp_desc_def by (induction rows) (simp_all add: sorted_insert_desc)

text \<open>The ordering returns the rows it was given, each as often as it was given.\<close>

lemma mset_insert_desc: "mset (insert_desc r rs) = add_mset r (mset rs)"
  by (induction rs) auto

lemma order_by_gdp_desc_same_rows: "mset (order_by_gdp_desc rows) = mset rows"
  unfolding order_by_gdp_desc_def by (induction rows) (simp_all add: mset_insert_desc)

lemma nulls_last_of_sorted:
  "sorted_wrt gdp_desc ks \<Longrightarrow>
   \<exists>vals n. ks = map Some vals @ replicate n None \<and> sorted_wrt (\<lambda>x y. y \<le> x) vals"
proof (induction ks)
  case Nil
  then show ?case by simp
next
  case (Cons k ks)
  then obtain vals n where
    ks: "ks = map Some vals @ replicate n None" and s: "sorted_wrt (\<lambda>x y. y \<le> x) vals"
    by auto
  show ?case
  proof (cases k)
    case None
    with Cons.prems have "\<forall>j \<in> set ks. j = None"
      by (auto elim: gdp_desc.elims)
    with ks have "vals = []" by (cases vals) auto
    with ks None have "k # ks = map Some [] @ replicate (Suc n) None" by simp
    then show ?thesis
      by (metis sorted_wrt.simps(1))
  next
    case (Some x)
    have "y \<le> x" if "y \<in> set vals" for y
    proof -
      from that ks have "Some y \<in> set ks" by simp
      with Cons.prems Some have "gdp_desc (Some x) (Some y)" by auto
      then show ?thesis by simp
    qed
    then have "\<forall>y \<in> set vals. y \<le> x" by blast
    with s have "sorted_wrt (\<lambda>x y. y \<le> x) (x # vals)" by simp
    moreover from ks Some have "k # ks = map Some (x # vals) @ replicate n None" by simp
    ultimately show ?thesis by blast
  qed
qed

lemma keys_sorted:
  "sorted_wrt gdp_desc (map estimated_gdp (order_by_gdp_desc rows))"
  using order_by_gdp_desc_sorted [of rows] by (simp add: sorted_wrt_map)

lemma order_by_gdp_desc_nulls_last:
  "\<exists>vals n. map estimated_gdp (order_by_gdp_desc rows) = map Some vals @ replicate n None \<and>
     sorted_wrt (\<lambda>x y. y \<le> x) vals"
  using nulls_last_of_sorted [OF keys_sorted [of rows]] .

text \<open>
  The order the later version of the listing writes out is the order of the earlier one
  on this server.
\<close>

lemma explicit_order_agrees: "is_null_asc_gdp_desc a b = gdp_desc a b"
  by (cases a; cases b) (simp_all add: is_null_asc_gdp_desc_def is_null_def)

text \<open>A run that completes draws the summary from the top five of the table it leaves.\<close>

lemma summary_shows_top5:
  assumes "refresh e w = (None, w')"
  shows "summary_file w' =
    Some \<lparr>total_countries = length (countries w'), top_countries = top5_query (countries w'),
      updated_at = render_clock e\<rparr>"
  using assms
  by (auto simp: refresh_def generateSummaryImage_def
      split: if_splits http_result.splits option.splits sum.splits prod.splits)

text \<open>
  Claim C6. Both orderings by GDP that the program asks for consist of the rows whose
  \<open>estimated_gdp\<close> is a number, in non-increasing order of it, followed by the rows
  whose \<open>estimated_gdp\<close> is NULL:
  \<^item> the listing with \<^verbatim>\<open>sort=gdp_desc\<close>, under any filter, returns the rows the filter
    selects, each once for each time the table has it, in such an order;
  \<^item> the top five of the summary are the first five rows, by name and
    \<open>estimated_gdp\<close>, of the whole table put in such an order, and so are in such an
    order themselves.
\<close>

theorem gdp_desc_orders_put_nulls_last:
  "(\<exists>ordered vals n.
      getCountries False region_q currency_q (Some ''gdp_desc'') rows =
        (200, CountryList ordered) \<and>
      mset ordered =
        mset (filter (\<lambda>r. matches region_q (region r) \<and> matches currency_q (currency_code r))
                rows) \<and>
      map estimated_gdp ordered = map Some vals @ replicate n None \<and>
      sorted_wrt (\<lambda>x y. y \<le> x) vals) \<and>
   (\<exists>ordered vals n.
      mset ordered = mset rows \<and>
      map estimated_gdp ordered = map Some vals @ replicate n None \<and>
      sorted_wrt (\<lambda>x y. y \<le> x) vals \<and>
      top5_query rows = map (\<lambda>r. (name r, estimated_gdp r)) (take 5 ordered)) \<and>
   (\<exists>vals n.
      map snd (top5_query rows) = map Some vals @ replicate n None \<and>
      sorted_wrt (\<lambda>x y. y \<le> x) vals)"
proof (intro conjI)
  let ?selected =
    "filter (\<lambda>r. matches region_q (region r) \<and> matches currency_q (currency_code r)) rows"
  have "getCountries False region_q currency_q (Some ''gdp_desc'') rows =
        (200, CountryList (order_by_gdp_desc ?selected))"
    by (simp add: getCountries_def)
  moreover have "mset (order_by_gdp_desc ?selected) = mset ?selected"
    by (rule order_by_gdp_desc_same_rows)
  ultimately show "\<exists>ordered vals n.
      getCountries False region_q currency_q (Some ''gdp_desc'') rows =
        (200, CountryList ordered) \<and>
      mset ordered = mset ?selected \<and>
      map estimated_gdp ordered = map Some vals @ replicate n None \<and>
      sorted_wrt (\<lambda>x y. y \<le> x) vals"
    using order_by_gdp_desc_nulls_last [of ?selected] by blast
next
  have "mset (order_by_gdp_desc rows) = mset rows"
    by (rule order_by_gdp_desc_same_rows)
  moreover have "top5_query rows =
      map (\<lambda>r. (name r, estimated_gdp r)) (take 5 (order_by_gdp_desc rows))"
    by (simp add: top5_query_def)
  ultimately show "\<exists>ordered vals n.
      mset ordered = mset rows \<and>
      map estimated_gdp ordered = map Some vals @ replicate n None \<and>
      sorted_wrt (\<lambda>x y. y \<le> x) vals \<and>
      top5_query rows = map (\<lambda>r. (name r, estimated_gdp r)) (take 5 ordered)"
    using order_by_gdp_desc_nulls_last [of rows] by blast
next
  have "map snd (top5_query rows) = take 5 (map estimated_gdp (order_by_gdp_desc rows))"
    by (simp add: top5_query_def take_map comp_def)
  moreover have "sorted_wrt gdp_desc (take 5 (map estimated_gdp (order_by_gdp_desc rows)))"
    using keys_sorted [of rows] by (rule sorted_wrt_take)
  ultimately show "\<exists>vals n.
      map snd (top5_query rows) = map Some vals @ replicate n None \<and>
      sorted_wrt (\<lambda>x y. y \<le> x) vals"
    using nulls_last_of_sorted by metis
qed

text \<open>
  On the table of B (estimate 0), France (no estimate) and A (estimate 150000), the
  listing and the top five are A, B, France.
\<close>

lemma gdp_desc_orders_sample:
  "getCountries False None None (Some ''gdp_desc'') [row_B, france_old, row_A] =
     (200, CountryList [row_A, row_B, france_old]) \<and>
   map estimated_gdp [row_A, row_B, france_old] = [Some 150000, Some 0, None] \<and>
   top5_query [row_B, france_old, row_A] =
     [(Str ''A'', Some 150000), (Str ''B'', Some 0), (Str ''France'', None)]"
  by (simp add: getCountries_def matches_def order_by_gdp_desc_def top5_query_def
      row_A_def row_B_def france_old_def)

end
